theory Spec2Isabelle
  imports Complex_Main "HOL-Library.Sublist" "HOL-Library.Multiset"
begin

section \<open>Values, errors and effects\<close>

text \<open>
  The retrieval pipeline of the chat application (\<^verbatim>\<open>src/lib/rag.ts\<close>, \<^verbatim>\<open>src/lib/db.ts\<close>,
  the chat route and the upload route) is embedded as functions over an explicit state.
  Every call that leaves the process (the embedding and completion services, an SQL
  statement, the vector index) is an event appended to a trace, and its answer is given by
  an oracle of the environment that sees the whole trace so far: a collaborator may answer
  the same request differently at different moments. Every \<^verbatim>\<open>throw\<close> is a value
  \<open>Inl e\<close>; \<^verbatim>\<open>try/catch\<close> is the combinator \<open>io_catch\<close>.
\<close>

text \<open>
  Values of dynamic type, as far as the code distinguishes them: \<open>Obj s\<close> is an object or
  an array whose \<^verbatim>\<open>JSON.stringify\<close> text is \<open>s\<close>. Numbers are written as integers here.
\<close>

datatype jsval = Undefined | Null | Bool bool | Num int | Str string | Obj string

fun truthy :: "jsval \<Rightarrow> bool" where
  "truthy Undefined = False"
| "truthy Null = False"
| "truthy (Bool b) = b"
| "truthy (Num n) = (n \<noteq> 0)"
| "truthy (Str s) = (s \<noteq> [])"
| "truthy (Obj s) = True"

text \<open>\<^verbatim>\<open>process.env.X\<close> used as a condition: set and not the empty string.\<close>

fun env_set :: "string option \<Rightarrow> bool" where
  "env_set None = False"
| "env_set (Some s) = (s \<noteq> [])"

type_synonym vec = "real list"

type_synonym metadata = "(string \<times> jsval) list"

datatype error =
    EmptyTextForEmbedding
  | OpenrouterKeyNotSet
  | EmbeddingApiFailed nat string
  | InvalidEmbeddingResponse
  | InvalidEmbeddingDimensions nat
  | InvalidEmbedding nat
  | InvalidQueryEmbedding nat
  | InvalidQueryEmbeddingDimensions nat
  | DatabaseUrlNotSet
  | UserDoesNotExist string
  | UserCreationFailed error
  | NoResponseBody
  | TypeError
  | External string

text \<open>A row of the primary store's search, and a match of the secondary index.\<close>

record pg_row =
  row_id :: string
  row_document_id :: string
  row_content :: string
  row_metadata :: "metadata option"
  row_similarity :: real

record pinecone_match =
  pc_id :: string
  pc_score :: real
  pc_metadata :: "metadata option"

text \<open>What \<^verbatim>\<open>queryEmbeddings\<close> hands on (\<^verbatim>\<open>any[]\<close>): values of either shape, as they came.\<close>

datatype match = PgRow pg_row | PineconeMatch pinecone_match

record user_row =
  user_id :: string
  user_email :: string
  user_name :: "string option"
  user_role :: string

datatype ddl =
    CreateExtensionVector | CreateUsers | CreateDocuments | CreateEmbeddings
  | CreateChatMessages | IndexDocumentsUser | IndexEmbeddingsDocument
  | IndexChatMessagesUser | IndexEmbeddingsVector

datatype stmt =
    Ddl ddl
  | UpsertUser string string "string option" string
  | SelectUser string
  | SelectUserId string
  | InsertDocument string string string string nat string
  | InsertEmbedding string jsval jsval jsval vec metadata
  | SearchEmbeddings vec nat
  | InsertChatMessage string string string string "string list option"

record chat_part =
  part_type :: string
  part_text :: "string option"
  part_image_url :: "string option"

datatype chat_content = Text string | Parts "chat_part list"

record chat_message =
  msg_role :: string
  msg_content :: chat_content

record completion_request =
  req_model :: string
  req_messages :: "chat_message list"
  req_stream :: bool

text \<open>
  The call sites of \<^verbatim>\<open>console.warn\<close> and \<^verbatim>\<open>console.error\<close>; the event carries the
  errors that are printed. \<^verbatim>\<open>console.log\<close> lines are not recorded.
\<close>

datatype log_site =
    PineconeDisabled | PineconeInitFailed | EmbeddingFailed | EmbeddingStorageFailed
  | PostgresStorageFailed | PineconeStorageFailed | PartialSuccess | StoreFailed
  | EmbeddingSearchFailed | PostgresQueryFailed | PineconeQueryFailed | QueryFailed
  | ContextRetrievalFailed | UserUpsertFailed | GetUserFailed | DocumentCreationFailed
  | DocumentErrorDetails
  | DatabaseInitFailed | EnsureUserFailed | UserCheckFailed | RagContextFailed
  | OpenRouterFailed | StoreMessageFailed | StreamFailed | ChatFailed
  | ImageFailed | ExtractionFailed | EmptyEmbedding | ChunkStoreFailed
  | ChunkPostgresFailed | ChunkFailed | UploadFailed

datatype event =
    FetchEmbeddings string
  | FetchChatCompletions completion_request
  | Sql stmt
  | PineconeNew string
  | PineconeUpsert string string vec metadata
  | PineconeQuery string vec nat
  | Console log_site "error list"

record state =
  trace :: "event list"
  pineconeClient :: bool

type_synonym 'a io = "state \<Rightarrow> (error + 'a) \<times> state"

definition io_return :: "'a \<Rightarrow> 'a io" where
  "io_return x = (\<lambda>s. (Inr x, s))"

definition io_throw :: "error \<Rightarrow> 'a io" where
  "io_throw e = (\<lambda>s. (Inl e, s))"

definition io_bind :: "'a io \<Rightarrow> ('a \<Rightarrow> 'b io) \<Rightarrow> 'b io" where
  "io_bind m f = (\<lambda>s. case m s of (Inl e, s') \<Rightarrow> (Inl e, s') | (Inr x, s') \<Rightarrow> f x s')"

definition io_then :: "unit io \<Rightarrow> 'b io \<Rightarrow> 'b io" where
  "io_then m k = io_bind m (\<lambda>_. k)"

definition io_catch :: "'a io \<Rightarrow> (error \<Rightarrow> 'a io) \<Rightarrow> 'a io" where
  "io_catch m h = (\<lambda>s. case m s of (Inl e, s') \<Rightarrow> h e s' | (Inr x, s') \<Rightarrow> (Inr x, s'))"

definition io_lift :: "error + 'a \<Rightarrow> 'a io" where
  "io_lift r = (\<lambda>s. (r, s))"

definition console :: "event \<Rightarrow> unit io" where
  "console ev = (\<lambda>s. (Inr (), s\<lparr>trace := trace s @ [ev]\<rparr>))"

text \<open>A call to a collaborator: the oracle answers from the trace so far, the call is recorded.\<close>

definition io_call :: "event \<Rightarrow> (event list \<Rightarrow> error + 'a) \<Rightarrow> 'a io" where
  "io_call ev oracle = (\<lambda>s. (oracle (trace s), s\<lparr>trace := trace s @ [ev]\<rparr>))"

text \<open>Reading the clock or the random source: an answer from the trace, no event.\<close>

definition io_read :: "(event list \<Rightarrow> 'a) \<Rightarrow> 'a io" where
  "io_read f = (\<lambda>s. (Inr (f (trace s)), s))"

fun io_each :: "('a \<Rightarrow> unit io) \<Rightarrow> 'a list \<Rightarrow> unit io" where
  "io_each f [] = io_return ()"
| "io_each f (x # xs) = io_then (f x) (io_each f xs)"

text \<open>The events that reach a store or the network (everything but the console).\<close>

fun external_call :: "event \<Rightarrow> bool" where
  "external_call (Console n es) = False"
| "external_call ev = True"

fun secondary_call :: "event \<Rightarrow> bool" where
  "secondary_call (PineconeNew k) = True"
| "secondary_call (PineconeUpsert ix i v m) = True"
| "secondary_call (PineconeQuery ix v k) = True"
| "secondary_call ev = False"

section \<open>The environment\<close>

record embedding_response =
  emb_ok :: bool
  emb_status :: nat
  emb_text :: "error + string"
  emb_json :: "error + vec option"

text \<open>
  The completion service's answer. The body is what the reader delivers: the chunks in
  order, then either the end of the stream or a failing read.
\<close>

record upstream =
  reads :: "string list"
  read_error :: "error option"

record chat_response =
  chat_ok :: bool
  chat_status :: nat
  chat_text :: "error + string"
  chat_body :: "upstream option"

type_synonym buffer = "char list"

text \<open>
  The environment: the process variables, the collaborators, the clock and the random
  source (as the identifiers and time stamps built from them), the functions of
  \<^verbatim>\<open>@/lib/fileProcessors\<close>, which the upload route imports, and what the host language
  brings along: \<^verbatim>\<open>JSON.parse\<close> followed by \<^verbatim>\<open>.choices?.[0]?.delta?.content\<close>
  (\<open>json_delta\<close>), the characters that \<^verbatim>\<open>String.prototype.trim\<close> and the class
  \<^verbatim>\<open>\s\<close> take for white space (\<open>white_space\<close>), and \<^verbatim>\<open>String.prototype.toLowerCase\<close>.
  They are parameters here; a statement that needs a fact about them says so.
\<close>

record env =
  OPENROUTER_API_KEY :: "string option"
  PINECONE_API_KEY :: "string option"
  PINECONE_INDEX :: "string option"
  DATABASE_URL :: "string option"
  fetch_embeddings :: "event list \<Rightarrow> string \<Rightarrow> error + embedding_response"
  sql_exec :: "event list \<Rightarrow> stmt \<Rightarrow> error + unit"
  sql_search :: "event list \<Rightarrow> vec \<Rightarrow> nat \<Rightarrow> error + pg_row list"
  sql_select_user :: "event list \<Rightarrow> string \<Rightarrow> error + user_row option"
  sql_upsert_user :: "event list \<Rightarrow> string \<Rightarrow> string \<Rightarrow> string option \<Rightarrow> string \<Rightarrow> error + user_row option"
  sql_select_user_id :: "event list \<Rightarrow> string \<Rightarrow> error + nat"
  pinecone_new :: "event list \<Rightarrow> string \<Rightarrow> error + unit"
  pinecone_upsert :: "event list \<Rightarrow> string \<Rightarrow> string \<Rightarrow> vec \<Rightarrow> metadata \<Rightarrow> error + unit"
  pinecone_query :: "event list \<Rightarrow> string \<Rightarrow> vec \<Rightarrow> nat \<Rightarrow> error + pinecone_match list option"
  fetch_chat :: "event list \<Rightarrow> completion_request \<Rightarrow> error + chat_response"
  json_delta :: "string \<Rightarrow> error + jsval"
  white_space :: "char \<Rightarrow> bool"
  toLowerCase :: "string \<Rightarrow> string"
  new_message_id :: "event list \<Rightarrow> string"
  new_document_id :: "event list \<Rightarrow> string"
  iso_now :: "event list \<Rightarrow> string"
  extractTextFromPDF :: "buffer \<Rightarrow> error + string"
  extractTextFromDOCX :: "buffer \<Rightarrow> error + string"
  extractTextFromTXT :: "buffer \<Rightarrow> error + string"
  processImage :: "buffer \<Rightarrow> string \<Rightarrow> error + string"
  chunkText :: "string \<Rightarrow> error + string list"

section \<open>Strings\<close>

text \<open>
  A string is a list of characters, the units the host language counts and compares. The
  code looks at a character in three ways: it compares it with another one, it asks whether
  it is white space, and it lower-cases a string; the last two are the environment's.
\<close>

text \<open>\<^verbatim>\<open>s.trim()\<close>: the white space at both ends is dropped.\<close>

definition trim :: "env \<Rightarrow> string \<Rightarrow> string" where
  "trim env s = rev (dropWhile (white_space env) (rev (dropWhile (white_space env) s)))"

text \<open>\<^verbatim>\<open>replace(/\s+/g, ' ')\<close>: every maximal run of white space becomes one space.\<close>

function collapse_ws :: "env \<Rightarrow> string \<Rightarrow> string" where
  "collapse_ws env [] = []"
| "collapse_ws env (c # cs) =
     (if white_space env c then CHR '' '' # collapse_ws env (dropWhile (white_space env) cs)
      else c # collapse_ws env cs)"
  by pat_completeness auto
termination
  by (relation "measure (\<lambda>(env, s). length s)") (auto simp: less_Suc_eq_le length_dropWhile_le)

text \<open>\<^verbatim>\<open>b.includes(a)\<close>: \<open>a\<close> occurs in \<open>b\<close> as a contiguous piece.\<close>

fun js_includes :: "string \<Rightarrow> string \<Rightarrow> bool" where
  "js_includes [] a = (a = [])"
| "js_includes (c # cs) a = (prefix a (c # cs) \<or> js_includes cs a)"

text \<open>\<^verbatim>\<open>s.split(sep)\<close> for a separator of one character: never the empty list.\<close>

fun split :: "char \<Rightarrow> string \<Rightarrow> string list" where
  "split sep [] = [[]]"
| "split sep (c # cs) =
     (if c = sep then [] # split sep cs
      else (case split sep cs of [] \<Rightarrow> [[c]] | w # ws \<Rightarrow> (c # w) # ws))"

text \<open>\<^verbatim>\<open>xs.join(sep)\<close>.\<close>

fun join :: "string \<Rightarrow> string list \<Rightarrow> string" where
  "join sep [] = []"
| "join sep [x] = x"
| "join sep (x # y # ys) = x @ sep @ join sep (y # ys)"

section \<open>The primary store: \<^verbatim>\<open>db.embeddings\<close>\<close>

definition getDb :: "env \<Rightarrow> unit io" where
  "getDb env = (if env_set (DATABASE_URL env) then io_return () else io_throw DatabaseUrlNotSet)"

text \<open>
  \<^verbatim>\<open>db.embeddings.create\<close>. Its first line prints \<^verbatim>\<open>content.length\<close>, which raises a
  type error for a missing content; then the dimension check; then the insert.
\<close>

definition db_embeddings_create ::
  "env \<Rightarrow> string \<Rightarrow> jsval \<Rightarrow> jsval \<Rightarrow> jsval \<Rightarrow> vec \<Rightarrow> metadata \<Rightarrow> unit io" where
  "db_embeddings_create env ident documentId chunkIndex content embedding md =
     io_catch
       (if content = Undefined \<or> content = Null then io_throw TypeError
        else if length embedding \<noteq> 1536
          then io_throw (InvalidEmbeddingDimensions (length embedding))
        else io_then (getDb env)
          (io_call (Sql (InsertEmbedding ident documentId chunkIndex content embedding md))
             (\<lambda>h. sql_exec env h
                (InsertEmbedding ident documentId chunkIndex content embedding md))))
       (\<lambda>e. io_then (console (Console EmbeddingStorageFailed [e])) (io_throw e))"

definition db_embeddings_search :: "env \<Rightarrow> vec \<Rightarrow> nat \<Rightarrow> pg_row list io" where
  "db_embeddings_search env queryEmbedding limit =
     io_catch
       (if length queryEmbedding \<noteq> 1536
          then io_throw (InvalidQueryEmbeddingDimensions (length queryEmbedding))
        else io_then (getDb env)
          (io_call (Sql (SearchEmbeddings queryEmbedding limit))
             (\<lambda>h. sql_search env h queryEmbedding limit)))
       (\<lambda>e. io_then (console (Console EmbeddingSearchFailed [e])) (io_throw e))"

section \<open>\<^verbatim>\<open>src/lib/rag.ts\<close>\<close>

text \<open>
  \<^verbatim>\<open>initPinecone\<close>: the client is built once and kept in a module variable. The result says
  whether a client is there (\<open>False\<close> is the source's \<^verbatim>\<open>null\<close>).
\<close>

definition initPinecone :: "env \<Rightarrow> bool io" where
  "initPinecone env = (\<lambda>s.
     if pineconeClient s then (Inr True, s)
     else io_catch
       (case PINECONE_API_KEY env of
          None \<Rightarrow> io_then (console (Console PineconeDisabled [])) (io_return False)
        | Some k \<Rightarrow>
            if k = [] then io_then (console (Console PineconeDisabled [])) (io_return False)
            else io_bind (io_call (PineconeNew k) (\<lambda>h. pinecone_new env h k))
                   (\<lambda>_. (\<lambda>s'. (Inr True, s'\<lparr>pineconeClient := True\<rparr>))))
       (\<lambda>e. io_then (console (Console PineconeInitFailed [e])) (io_return False)) s)"

definition embedText :: "env \<Rightarrow> string \<Rightarrow> vec io" where
  "embedText env text =
     io_catch
       (if text = [] \<or> trim env text = [] then io_throw EmptyTextForEmbedding
        else if \<not> env_set (OPENROUTER_API_KEY env) then io_throw OpenrouterKeyNotSet
        else
          let cleanedText = trim env (collapse_ws env (take 8000 text)) in
          io_bind (io_call (FetchEmbeddings cleanedText) (\<lambda>h. fetch_embeddings env h cleanedText))
            (\<lambda>response.
               if \<not> emb_ok response then
                 io_bind (io_lift (emb_text response))
                   (\<lambda>errorText. io_throw (EmbeddingApiFailed (emb_status response) errorText))
               else
                 io_bind (io_lift (emb_json response))
                   (\<lambda>data. case data of
                        None \<Rightarrow> io_throw InvalidEmbeddingResponse
                      | Some embedding \<Rightarrow>
                          if length embedding \<noteq> 1536
                            then io_throw (InvalidEmbeddingDimensions (length embedding))
                          else io_return embedding)))
       (\<lambda>e. io_then (console (Console EmbeddingFailed [e])) (io_throw e))"

text \<open>\<^verbatim>\<open>metadata.key\<close> on a \<^verbatim>\<open>Record<string, any>\<close>: a missing key reads as undefined.\<close>

definition md_get :: "metadata \<Rightarrow> string \<Rightarrow> jsval" where
  "md_get md k = (case map_of md k of None \<Rightarrow> Undefined | Some v \<Rightarrow> v)"

fun primitive :: "jsval \<Rightarrow> bool" where
  "primitive (Str s) = True"
| "primitive (Num n) = True"
| "primitive (Bool b) = True"
| "primitive v = False"

fun stringify :: "jsval \<Rightarrow> jsval" where
  "stringify (Obj s) = Str s"
| "stringify v = v"

text \<open>The loop that cleans the metadata for the secondary index.\<close>

definition cleanMetadata :: "metadata \<Rightarrow> metadata" where
  "cleanMetadata md =
     map (\<lambda>(k, v). (k, if primitive v then v else stringify v))
       (filter (\<lambda>(k, v). v \<noteq> Undefined \<and> v \<noteq> Null) md)"

text \<open>The object \<^verbatim>\<open>{fileName, fileType, uploadedAt}\<close> handed to the primary store.\<close>

definition primary_metadata :: "metadata \<Rightarrow> metadata" where
  "primary_metadata md =
     [(''fileName'', md_get md ''fileName''), (''fileType'', md_get md ''fileType''),
      (''uploadedAt'', md_get md ''uploadedAt'')]"

text \<open>
  \<^verbatim>\<open>storeEmbedding\<close>. The list \<open>errors\<close> of the source is threaded through: the primary
  store's handler rethrows, the secondary index's handler appends and goes on.
\<close>

definition storeEmbedding :: "env \<Rightarrow> string \<Rightarrow> vec \<Rightarrow> metadata \<Rightarrow> unit io" where
  "storeEmbedding env ident embedding md =
     io_catch
       (if length embedding \<noteq> 1536 then io_throw (InvalidEmbedding (length embedding))
        else
          io_bind
            (io_catch
               (io_bind
                  (db_embeddings_create env ident (md_get md ''documentId'')
                     (md_get md ''chunkIndex'') (md_get md ''content'') embedding
                     (primary_metadata md))
                  (\<lambda>_. io_return []))
               (\<lambda>pgError. io_then (console (Console PostgresStorageFailed [pgError]))
                              (io_throw pgError)))
            (\<lambda>errors.
               io_bind
                 (case PINECONE_INDEX env of
                    None \<Rightarrow> io_return errors
                  | Some ix \<Rightarrow>
                      if ix = [] then io_return errors
                      else io_catch
                        (io_bind (initPinecone env)
                           (\<lambda>pc. if pc
                                then io_bind
                                  (io_call (PineconeUpsert ix ident embedding (cleanMetadata md))
                                     (\<lambda>h. pinecone_upsert env h ix ident embedding
                                              (cleanMetadata md)))
                                  (\<lambda>_. io_return errors)
                                else io_return errors))
                        (\<lambda>pineconeError.
                           io_then (console (Console PineconeStorageFailed [pineconeError]))
                             (io_return (errors @ [pineconeError]))))
                 (\<lambda>errors. if errors \<noteq> [] then console (Console PartialSuccess errors)
                            else io_return ())))
       (\<lambda>e. io_then (console (Console StoreFailed [e])) (io_throw e))"

text \<open>
  \<^verbatim>\<open>queryEmbeddings\<close>. Each inner \<^verbatim>\<open>try\<close> block yields \<open>Some\<close> matches where the source
  returns from inside it, and \<open>None\<close> where control falls through to the next block.
\<close>

definition queryEmbeddings :: "env \<Rightarrow> vec \<Rightarrow> nat \<Rightarrow> match list io" where
  "queryEmbeddings env queryEmbedding topK =
     io_catch
       (if length queryEmbedding \<noteq> 1536
          then io_throw (InvalidQueryEmbedding (length queryEmbedding))
        else
          io_bind
            (io_catch
               (io_bind (db_embeddings_search env queryEmbedding topK)
                  (\<lambda>results. if results \<noteq> [] then io_return (Some (map PgRow results))
                              else io_return None))
               (\<lambda>pgError. io_then (console (Console PostgresQueryFailed [pgError]))
                              (io_return None)))
            (\<lambda>found. case found of
                 Some results \<Rightarrow> io_return results
               | None \<Rightarrow>
                   io_bind
                     (case PINECONE_INDEX env of
                        None \<Rightarrow> io_return None
                      | Some ix \<Rightarrow>
                          if ix = [] then io_return None
                          else io_catch
                            (io_bind (initPinecone env)
                               (\<lambda>pc. if pc
                                    then io_bind
                                      (io_call (PineconeQuery ix queryEmbedding topK)
                                         (\<lambda>h. pinecone_query env h ix queryEmbedding topK))
                                      (\<lambda>results. case results of
                                           None \<Rightarrow> io_return None
                                         | Some ms \<Rightarrow>
                                             if ms \<noteq> []
                                               then io_return (Some (map PineconeMatch ms))
                                             else io_return None)
                                    else io_return None))
                            (\<lambda>pineconeError.
                               io_then (console (Console PineconeQueryFailed [pineconeError]))
                                 (io_return None)))
                     (\<lambda>found. case found of
                          Some ms \<Rightarrow> io_return ms
                        | None \<Rightarrow> io_return [])))
       (\<lambda>e. io_then (console (Console QueryFailed [e])) (io_return []))"

text \<open>
  \<^verbatim>\<open>textSimilarity\<close>, the local function of \<^verbatim>\<open>retrieveContext\<close>. The source adds the
  floating-point constant 0.1; the sums are exact here.
\<close>

definition textSimilarity :: "env \<Rightarrow> string \<Rightarrow> string \<Rightarrow> real" where
  "textSimilarity env a b =
     (let a' = toLowerCase env a; b' = toLowerCase env b;
          score = (if js_includes b' a' then 1 else 0)
      in foldl (\<lambda>score w. if js_includes b' w then score + 1 / 10 else score) score
           (split CHR '' '' a'))"

text \<open>The fields a match is read by: \<^verbatim>\<open>match.content\<close> and \<^verbatim>\<open>match.metadata?.key\<close>.\<close>

fun match_content :: "match \<Rightarrow> jsval" where
  "match_content (PgRow r) = Str (row_content r)"
| "match_content (PineconeMatch m) = Undefined"

fun match_metadata :: "match \<Rightarrow> metadata option" where
  "match_metadata (PgRow r) = row_metadata r"
| "match_metadata (PineconeMatch m) = pc_metadata m"

text \<open>The shape of the primary store's results: a row, its text in the field \<open>content\<close>.\<close>

fun row_shaped :: "match \<Rightarrow> bool" where
  "row_shaped (PgRow r) = True"
| "row_shaped (PineconeMatch m) = False"

definition opt_get :: "metadata option \<Rightarrow> string \<Rightarrow> jsval" where
  "opt_get md k = (case md of None \<Rightarrow> Undefined | Some m \<Rightarrow> md_get m k)"

fun is_str :: "jsval \<Rightarrow> bool" where
  "is_str (Str s) = True"
| "is_str v = False"

fun str_of :: "jsval \<Rightarrow> string" where
  "str_of (Str s) = s"
| "str_of v = []"

text \<open>
  \<^verbatim>\<open>matches.sort((a, b) => textSimilarity(query, b.content) - textSimilarity(query, a.content))\<close>.
  The sort is stable and the comparator orders by falling score. On a list of two or more
  every element meets the comparator, and \<^verbatim>\<open>b.toLowerCase()\<close> raises a type error on a
  content that is not a string; a list of at most one is never compared.
\<close>

definition sort_matches :: "env \<Rightarrow> string \<Rightarrow> match list \<Rightarrow> error + match list" where
  "sort_matches env query matches =
     (if 2 \<le> length matches \<and> (\<exists>m \<in> set matches. \<not> is_str (match_content m))
        then Inl TypeError
      else Inr (sort_key (\<lambda>m. - textSimilarity env query (str_of (match_content m))) matches))"

definition js_or :: "jsval \<Rightarrow> jsval \<Rightarrow> jsval" where
  "js_or a b = (if truthy a then a else b)"

definition extract_content :: "match \<Rightarrow> string" where
  "extract_content m =
     (let content = js_or (match_content m)
                      (js_or (opt_get (match_metadata m) ''content'')
                         (js_or (opt_get (match_metadata m) ''chunk_content'') (Str [])))
      in if is_str content then str_of content else [])"

definition blank_line :: string where
  "blank_line = [CHR 0x0A, CHR 0x0A]"

definition rewrite_query :: "string \<Rightarrow> string" where
  "rewrite_query query = ''Use the document only. Extract the answer. Question: '' @ query"

definition retrieveContext :: "env \<Rightarrow> string \<Rightarrow> string io" where
  "retrieveContext env query =
     io_catch
       (if query = [] \<or> trim env query = [] then io_return []
        else
          io_bind (embedText env (rewrite_query query))
            (\<lambda>queryEmbedding.
               io_bind (queryEmbeddings env queryEmbedding 10)
                 (\<lambda>matches.
                    io_bind (io_lift (sort_matches env query matches))
                      (\<lambda>matches.
                         if matches = [] then io_return []
                         else io_return
                           (join blank_line
                              (filter (\<lambda>c. c \<noteq> []) (map extract_content matches)))))))
       (\<lambda>e. io_then (console (Console ContextRetrievalFailed [e])) (io_return []))"

section \<open>The primary store: users, documents, chat messages, schema\<close>

definition or_null :: "string option \<Rightarrow> string option" where
  "or_null x = (case x of None \<Rightarrow> None | Some v \<Rightarrow> if v = [] then None else Some v)"

definition db_users_upsert ::
  "env \<Rightarrow> string \<Rightarrow> string \<Rightarrow> string option \<Rightarrow> string \<Rightarrow> user_row option io" where
  "db_users_upsert env ident email name role =
     io_catch
       (io_then (getDb env)
          (io_call (Sql (UpsertUser ident email (or_null name) role))
             (\<lambda>h. sql_upsert_user env h ident email (or_null name) role)))
       (\<lambda>e. io_then (console (Console UserUpsertFailed [e])) (io_throw e))"

definition db_users_getById :: "env \<Rightarrow> string \<Rightarrow> user_row option io" where
  "db_users_getById env ident =
     io_catch
       (io_then (getDb env)
          (io_call (Sql (SelectUser ident)) (\<lambda>h. sql_select_user env h ident)))
       (\<lambda>e. io_then (console (Console GetUserFailed [e])) (io_throw e))"

definition db_documents_create ::
  "env \<Rightarrow> string \<Rightarrow> string \<Rightarrow> string \<Rightarrow> string \<Rightarrow> nat \<Rightarrow> string \<Rightarrow> unit io" where
  "db_documents_create env ident userId fileName fileType fileSize originalText =
     io_catch
       (io_then (getDb env)
          (io_bind (io_call (Sql (SelectUserId userId)) (\<lambda>h. sql_select_user_id env h userId))
             (\<lambda>userCheck.
                if userCheck = 0 then io_throw (UserDoesNotExist userId)
                else io_then (getDb env)
                  (io_call
                     (Sql (InsertDocument ident userId fileName fileType fileSize originalText))
                     (\<lambda>h. sql_exec env h
                        (InsertDocument ident userId fileName fileType fileSize
                           originalText))))))
       (\<lambda>e. io_then (console (Console DocumentCreationFailed [e])) (io_throw e))"

definition db_chatMessages_create ::
  "env \<Rightarrow> string \<Rightarrow> string \<Rightarrow> string \<Rightarrow> string \<Rightarrow> string list option \<Rightarrow> unit io" where
  "db_chatMessages_create env ident userId role content images =
     io_then (getDb env)
       (io_call (Sql (InsertChatMessage ident userId role content images))
          (\<lambda>h. sql_exec env h (InsertChatMessage ident userId role content images)))"

definition ddl_statements :: "ddl list" where
  "ddl_statements =
     [CreateExtensionVector, CreateUsers, CreateDocuments, CreateEmbeddings,
      CreateChatMessages, IndexDocumentsUser, IndexEmbeddingsDocument,
      IndexChatMessagesUser, IndexEmbeddingsVector]"

text \<open>\<^verbatim>\<open>initializeDatabase\<close>: the connection is taken outside the \<^verbatim>\<open>try\<close> block.\<close>

definition initializeDatabase :: "env \<Rightarrow> unit io" where
  "initializeDatabase env =
     io_then (getDb env)
       (io_catch
          (io_each (\<lambda>d. io_call (Sql (Ddl d)) (\<lambda>h. sql_exec env h (Ddl d))) ddl_statements)
          (\<lambda>e. io_then (console (Console DatabaseInitFailed [e])) (io_throw e)))"

section \<open>The chat route\<close>

record in_message =
  in_role :: "string option"
  in_content :: string

record chat_input =
  in_messages :: "in_message list"
  in_images :: "string list option"
  in_userId :: "string option"

text \<open>
  What the route puts on its output stream: one normalised event
  \<^verbatim>\<open>{type: 'text-delta', delta: {text}}\<close> with the text, or the line \<^verbatim>\<open>data: [DONE]\<close>.
\<close>

datatype sse = TextDelta jsval | Done

datatype chat_result = JsonResponse nat string | EventStream "sse list"

text \<open>
  The variable \<^verbatim>\<open>systemMessage\<close> of the route. The request body below does not use it.
\<close>

definition systemMessage :: "string \<Rightarrow> string" where
  "systemMessage ragContext =
     (if ragContext \<noteq> [] then
        ''You are a helpful AI assistant. Use the following context to answer questions when relevant:''
        @ blank_line @ ragContext @ blank_line
        @ ''If the context doesn't contain relevant information, answer based on your general knowledge.''
      else ''You are a helpful AI assistant.'')"

definition context_message :: "string \<Rightarrow> chat_message" where
  "context_message ragContext =
     \<lparr>msg_role = ''assistant'',
      msg_content = Text (''Here is relevant document context:'' @ blank_line @ ragContext)\<rparr>"

definition hasImages :: "string list option \<Rightarrow> bool" where
  "hasImages images = (case images of None \<Rightarrow> False | Some is \<Rightarrow> is \<noteq> [])"

definition image_part :: "string \<Rightarrow> chat_part" where
  "image_part img = \<lparr>part_type = ''image_url'', part_text = None, part_image_url = Some img\<rparr>"

definition text_part :: "string \<Rightarrow> chat_part" where
  "text_part t = \<lparr>part_type = ''text'', part_text = Some t, part_image_url = None\<rparr>"

definition out_role :: "env \<Rightarrow> in_message \<Rightarrow> string" where
  "out_role env msg =
     (if map_option (toLowerCase env) (in_role msg) = Some ''assistant'' then ''assistant''
      else ''user'')"

text \<open>
  \<^verbatim>\<open>messages.filter(...).map((msg, index) => ...)\<close>: the index counts the filtered list and
  is compared with the length of the unfiltered one.
\<close>

definition userMessages ::
  "env \<Rightarrow> in_message list \<Rightarrow> string list option \<Rightarrow> chat_message list" where
  "userMessages env messages images =
     map (\<lambda>(index, msg).
            if out_role env msg = ''user'' \<and> hasImages images \<and> index + 1 = length messages
              then \<lparr>msg_role = out_role env msg,
                    msg_content = Parts (text_part (in_content msg)
                                    # map image_part (case images of None \<Rightarrow> [] | Some is \<Rightarrow> is))\<rparr>
            else \<lparr>msg_role = out_role env msg, msg_content = Text (in_content msg)\<rparr>)
       (enumerate 0
          (filter (\<lambda>msg. env_set (in_role msg) \<and> in_content msg \<noteq> []) messages))"

definition completion_body ::
  "env \<Rightarrow> in_message list \<Rightarrow> string list option \<Rightarrow> string \<Rightarrow> completion_request" where
  "completion_body env messages images ragContext =
     \<lparr>req_model = (if hasImages images then ''google/gemini-flash-1.5''
                    else ''microsoft/phi-3-medium-128k-instruct''),
      req_messages = context_message ragContext # userMessages env messages images,
      req_stream = True\<rparr>"

text \<open>One line of a chunk of the upstream body; a payload that does not parse is skipped.\<close>

definition emit_line :: "env \<Rightarrow> string \<Rightarrow> sse list" where
  "emit_line env line =
     (if prefix ''data: '' line then
        (let data = drop 6 line in
         if data = ''[DONE]'' then [Done]
         else (case json_delta env data of
                 Inl e \<Rightarrow> []
               | Inr delta \<Rightarrow> if truthy delta then [TextDelta delta] else []))
      else [])"

text \<open>
  One chunk, as one read delivers it: \<^verbatim>\<open>chunk.split('\n').filter(line => line.trim())\<close>, and
  the loop over the lines that are left.
\<close>

definition emit_chunk :: "env \<Rightarrow> string \<Rightarrow> sse list" where
  "emit_chunk env chunk =
     concat (map (emit_line env)
               (filter (\<lambda>line. trim env line \<noteq> []) (split (CHR 0x0A) chunk)))"

text \<open>
  The \<^verbatim>\<open>start\<close> function of the output stream: what has been enqueued stays enqueued when
  a read fails; the handler prints the error and closes.
\<close>

definition stream_start :: "env \<Rightarrow> upstream option \<Rightarrow> sse list io" where
  "stream_start env body =
     (case body of
        None \<Rightarrow> io_then (console (Console StreamFailed [NoResponseBody])) (io_return [])
      | Some up \<Rightarrow>
          (let out = concat (map (emit_chunk env) (reads up)) in
           case read_error up of
             None \<Rightarrow> io_return out
           | Some e \<Rightarrow> io_then (console (Console StreamFailed [e])) (io_return out)))"

definition ensure_user_chat :: "env \<Rightarrow> string \<Rightarrow> unit io" where
  "ensure_user_chat env userId =
     io_catch
       (io_bind (db_users_getById env userId)
          (\<lambda>existingUser. case existingUser of
               Some u \<Rightarrow> io_return ()
             | None \<Rightarrow>
                 io_bind (db_users_upsert env userId (userId @ ''@temp.local'')
                            (Some ''Chat User'') ''user'')
                   (\<lambda>_. io_return ())))
       (\<lambda>userError. console (Console UserCheckFailed [userError]))"

text \<open>
  \<^verbatim>\<open>lastMessage.content\<close> for \<^verbatim>\<open>lastMessage = messages[messages.length - 1]\<close>: an empty
  list has no last message, the variable is undefined, and reading its content raises a type
  error at the place where it is read. Both places are inside a \<^verbatim>\<open>try\<close> block.
\<close>

definition last_content :: "in_message list \<Rightarrow> error + string" where
  "last_content messages =
     (if messages = [] then Inl TypeError else Inr (in_content (last messages)))"

text \<open>The context for the last message; an error is printed and leaves the context empty.\<close>

definition rag_context :: "env \<Rightarrow> in_message list \<Rightarrow> string io" where
  "rag_context env messages =
     io_catch (io_bind (io_lift (last_content messages)) (retrieveContext env))
       (\<lambda>e. io_then (console (Console RagContextFailed [e])) (io_return []))"

text \<open>
  The user's message in the chat log. The arguments are evaluated in order: the identifier
  first, the content of the last message after it.
\<close>

definition store_user_message ::
  "env \<Rightarrow> string \<Rightarrow> in_message list \<Rightarrow> string list option \<Rightarrow> unit io" where
  "store_user_message env userId messages images =
     io_catch
       (io_bind (io_read (new_message_id env))
          (\<lambda>ident.
             io_bind (io_lift (last_content messages))
               (\<lambda>content. db_chatMessages_create env ident userId ''user'' content images)))
       (\<lambda>e. console (Console StoreMessageFailed [e]))"

text \<open>
  The route after the user check: the context, the completion request, the user's message
  in the chat log, the stream.
\<close>

definition chat_turn ::
  "env \<Rightarrow> string \<Rightarrow> in_message list \<Rightarrow> string list option \<Rightarrow> chat_result io" where
  "chat_turn env userId messages images =
     io_bind (rag_context env messages)
       (\<lambda>ragContext.
          let request = completion_body env messages images ragContext in
          io_bind
            (io_call (FetchChatCompletions request) (\<lambda>h. fetch_chat env h request))
            (\<lambda>response.
               if \<not> chat_ok response then
                 io_bind (io_lift (chat_text response))
                   (\<lambda>errorText.
                      io_then (console (Console OpenRouterFailed [External errorText]))
                        (io_return (JsonResponse (chat_status response) errorText)))
               else
                 io_then
                   (store_user_message env userId messages images)
                   (io_bind (stream_start env (chat_body response))
                      (\<lambda>events. io_return (EventStream events)))))"

definition chat_POST :: "env \<Rightarrow> error + chat_input \<Rightarrow> chat_result io" where
  "chat_POST env body =
     io_catch
       (io_bind (io_lift body)
          (\<lambda>inp.
             if \<not> env_set (in_userId inp) then io_return (JsonResponse 401 ''Unauthorized'')
             else
               let userId = (case in_userId inp of Some u \<Rightarrow> u | None \<Rightarrow> []) in
               io_then
                 (io_catch (initializeDatabase env)
                    (\<lambda>initError. console (Console DatabaseInitFailed [initError])))
                 (io_then (ensure_user_chat env userId)
                    (chat_turn env userId (in_messages inp) (in_images inp)))))
       (\<lambda>e. io_then (console (Console ChatFailed [e]))
                (io_return (JsonResponse 500 ''Error processing chat request'')))"

section \<open>The upload route\<close>

record upload_file =
  file_name :: string
  file_size :: nat
  file_type :: string
  file_bytes :: "error + buffer"

record form_data =
  form_userId :: "string option"
  form_file :: "upload_file option"

record upload_summary =
  up_fileName :: string
  up_fileType :: string
  up_documentId :: string
  up_chunksProcessed :: nat
  up_totalChunks :: nat
  up_successCount :: nat
  up_failCount :: nat
  up_extractedText :: string

datatype upload_result =
    Failure nat string "error option"
  | Unsupported nat "string list"
  | ImageSuccess string string string
  | Success upload_summary

definition SUPPORTED_IMAGE_TYPES :: "string list" where
  "SUPPORTED_IMAGE_TYPES =
     [''image/png'', ''image/jpeg'', ''image/jpg'', ''image/gif'', ''image/webp'',
      ''image/bmp'', ''image/svg+xml'', ''image/tiff'', ''image/tif'']"

definition SUPPORTED_DOC_TYPES :: "string list" where
  "SUPPORTED_DOC_TYPES =
     [''application/pdf'',
      ''application/vnd.openxmlformats-officedocument.wordprocessingml.document'',
      ''application/msword'', ''text/plain'']"

definition ensureUserExists :: "env \<Rightarrow> string \<Rightarrow> string io" where
  "ensureUserExists env userId =
     io_catch
       (io_bind (db_users_getById env userId)
          (\<lambda>user. case user of
               Some u \<Rightarrow> io_return userId
             | None \<Rightarrow>
                 io_bind (db_users_upsert env userId (userId @ ''@temp.local'')
                            (Some ''App User'') ''user'')
                   (\<lambda>_. io_return userId)))
       (\<lambda>e. io_then (console (Console EnsureUserFailed [e])) (io_throw (UserCreationFailed e)))"

text \<open>The decimal text of an index, as the template \<^verbatim>\<open>`${documentId}-chunk-${i}`\<close> prints it.\<close>

function show_nat :: "nat \<Rightarrow> string" where
  "show_nat n =
     (if n < 10 then [''0123456789'' ! n]
      else show_nat (n div 10) @ [''0123456789'' ! (n mod 10)])"
  by pat_completeness auto
termination
  by (relation "measure id") auto

declare show_nat.simps [simp del]

definition chunk_metadata :: "string \<Rightarrow> string \<Rightarrow> string \<Rightarrow> metadata" where
  "chunk_metadata fileName mimeType uploadedAt =
     [(''fileName'', Str fileName), (''fileType'', Str mimeType), (''uploadedAt'', Str uploadedAt)]"

definition chunk_id :: "string \<Rightarrow> nat \<Rightarrow> string" where
  "chunk_id documentId i = documentId @ ''-chunk-'' @ show_nat i"

text \<open>The metadata the loop hands to \<^verbatim>\<open>storeEmbedding\<close>.\<close>

definition store_metadata ::
  "string \<Rightarrow> upload_file \<Rightarrow> string \<Rightarrow> nat \<Rightarrow> string \<Rightarrow> string \<Rightarrow> metadata" where
  "store_metadata documentId file finalUserId i chunk uploadedAt =
     [(''content'', Str chunk), (''fileName'', Str (file_name file)),
      (''fileType'', Str (file_type file)), (''chunkIndex'', Num (int i)),
      (''uploadedAt'', Str uploadedAt), (''documentId'', Str documentId),
      (''userId'', Str finalUserId)]"

text \<open>
  The first inner \<^verbatim>\<open>try\<close> block of the loop body: the call of \<^verbatim>\<open>storeEmbedding\<close>. Its
  handler prints the error and touches no counter.
\<close>

definition store_in_both ::
  "env \<Rightarrow> string \<Rightarrow> upload_file \<Rightarrow> string \<Rightarrow> nat \<Rightarrow> string \<Rightarrow> vec \<Rightarrow> unit io" where
  "store_in_both env documentId file finalUserId i chunk embedding =
     io_catch
       (io_bind (io_read (iso_now env))
          (\<lambda>uploadedAt.
             storeEmbedding env (chunk_id documentId i) embedding
               (store_metadata documentId file finalUserId i chunk uploadedAt)))
       (\<lambda>pineconeError. console (Console ChunkStoreFailed [pineconeError]))"

text \<open>
  The second inner \<^verbatim>\<open>try\<close> block: the row of the chunk is written to the primary store
  by the route itself, and this write decides which counter rises.
\<close>

definition store_in_primary ::
  "env \<Rightarrow> string \<Rightarrow> upload_file \<Rightarrow> nat \<Rightarrow> string \<Rightarrow> vec \<Rightarrow> nat \<times> nat \<Rightarrow> (nat \<times> nat) io" where
  "store_in_primary env documentId file i chunk embedding counts =
     io_catch
       (io_bind (io_read (iso_now env))
          (\<lambda>uploadedAt.
             io_then
               (db_embeddings_create env (chunk_id documentId i) (Str documentId) (Num (int i))
                  (Str chunk) embedding
                  (chunk_metadata (file_name file) (file_type file) uploadedAt))
               (io_return (fst counts + 1, snd counts))))
       (\<lambda>pgError. io_then (console (Console ChunkPostgresFailed [pgError]))
                      (io_return (fst counts, snd counts + 1)))"

text \<open>
  One turn of the loop over the chunks, on the two counters \<open>(successCount, failCount)\<close>.
  The outer handler is the \<^verbatim>\<open>catch\<close> block of the loop body.
\<close>

definition process_chunk ::
  "env \<Rightarrow> string \<Rightarrow> upload_file \<Rightarrow> string \<Rightarrow> nat \<Rightarrow> string \<Rightarrow> nat \<times> nat \<Rightarrow> (nat \<times> nat) io" where
  "process_chunk env documentId file finalUserId i chunk counts =
     io_catch
       (io_bind (embedText env chunk)
          (\<lambda>embedding.
             if embedding = [] then
               io_then (console (Console EmptyEmbedding []))
                 (io_return (fst counts, snd counts + 1))
             else
               io_then (store_in_both env documentId file finalUserId i chunk embedding)
                 (store_in_primary env documentId file i chunk embedding counts)))
       (\<lambda>chunkError. io_then (console (Console ChunkFailed [chunkError]))
                         (io_return (fst counts, snd counts + 1)))"

fun chunk_loop ::
  "env \<Rightarrow> string \<Rightarrow> upload_file \<Rightarrow> string \<Rightarrow> nat \<Rightarrow> string list \<Rightarrow> nat \<times> nat \<Rightarrow> (nat \<times> nat) io" where
  "chunk_loop env documentId file finalUserId i [] counts = io_return counts"
| "chunk_loop env documentId file finalUserId i (chunk # chunks) counts =
     io_bind (process_chunk env documentId file finalUserId i chunk counts)
       (chunk_loop env documentId file finalUserId (Suc i) chunks)"

definition extract_text :: "env \<Rightarrow> string \<Rightarrow> buffer \<Rightarrow> (error + string) option" where
  "extract_text env mimeType buf =
     (if mimeType = ''application/pdf'' then Some (extractTextFromPDF env buf)
      else if mimeType = ''application/vnd.openxmlformats-officedocument.wordprocessingml.document''
              \<or> mimeType = ''application/msword''
        then Some (extractTextFromDOCX env buf)
      else if mimeType = ''text/plain'' then Some (extractTextFromTXT env buf)
      else None)"

text \<open>Steps 5 and 6 of the route: the document row, the chunks, the response.\<close>

definition store_document :: "env \<Rightarrow> upload_file \<Rightarrow> string \<Rightarrow> string \<Rightarrow> upload_result io" where
  "store_document env file finalUserId extractedText =
     io_bind (io_read (new_document_id env))
       (\<lambda>documentId.
          io_bind
            (io_catch
               (io_then
                  (db_documents_create env documentId finalUserId (file_name file)
                     (file_type file) (file_size file) extractedText)
                  (io_return None))
               (\<lambda>dbError.
                  io_then (console (Console DocumentCreationFailed [dbError]))
                    (io_then (console (Console DocumentErrorDetails [dbError]))
                       (io_return (Some (Failure 500 ''Database error'' (Some dbError)))))))
            (\<lambda>failed. case failed of
                 Some r \<Rightarrow> io_return r
               | None \<Rightarrow>
                   io_bind (io_lift (chunkText env extractedText))
                     (\<lambda>chunks.
                        if chunks = [] then
                          io_return (Failure 400 ''Failed to create text chunks'' None)
                        else
                          io_bind (chunk_loop env documentId file finalUserId 0 chunks (0, 0))
                            (\<lambda>counts.
                               io_return
                                 (Success
                                    \<lparr>up_fileName = file_name file,
                                     up_fileType = file_type file,
                                     up_documentId = documentId,
                                     up_chunksProcessed = fst counts,
                                     up_totalChunks = length chunks,
                                     up_successCount = fst counts,
                                     up_failCount = snd counts,
                                     up_extractedText = take 500 extractedText @ ''...''\<rparr>)))))"

text \<open>Steps 3 and 4 of the route: an image is answered at once, a document is read.\<close>

definition read_file :: "env \<Rightarrow> upload_file \<Rightarrow> string \<Rightarrow> upload_result io" where
  "read_file env file finalUserId =
     io_bind (io_lift (file_bytes file))
       (\<lambda>buf.
          let mimeType = file_type file in
          if mimeType \<in> set SUPPORTED_IMAGE_TYPES \<or> prefix ''image/'' mimeType then
            (case processImage env buf mimeType of
               Inr base64Image \<Rightarrow> io_return (ImageSuccess base64Image (file_name file) mimeType)
             | Inl imageError \<Rightarrow>
                 io_then (console (Console ImageFailed [imageError]))
                   (io_return (Failure 500 ''Image processing failed'' (Some imageError))))
          else
            (case extract_text env mimeType buf of
               None \<Rightarrow> io_return (Unsupported 400 (SUPPORTED_IMAGE_TYPES @ SUPPORTED_DOC_TYPES))
             | Some (Inl extractError) \<Rightarrow>
                 io_then (console (Console ExtractionFailed [extractError]))
                   (io_return (Failure 500 ''Text extraction failed'' (Some extractError)))
             | Some (Inr extractedText) \<Rightarrow>
                 if extractedText = [] \<or> trim env extractedText = [] then
                   io_return (Failure 400 ''No text content found in document'' None)
                 else store_document env file finalUserId extractedText))"

text \<open>Step 1: the schema. \<open>True\<close> when it is in place.\<close>

definition init_step :: "env \<Rightarrow> bool io" where
  "init_step env =
     io_catch (io_then (initializeDatabase env) (io_return True))
       (\<lambda>initError. io_then (console (Console DatabaseInitFailed [initError]))
                        (io_return False))"

text \<open>Step 2: the user. The error of \<open>ensureUserExists\<close>, or the user's id.\<close>

definition user_step :: "env \<Rightarrow> string \<Rightarrow> (error + string) io" where
  "user_step env userId =
     io_catch (io_bind (ensureUserExists env userId) (\<lambda>u. io_return (Inr u)))
       (\<lambda>userError. io_then (console (Console EnsureUserFailed [userError]))
                        (io_return (Inl userError)))"

definition upload_POST :: "env \<Rightarrow> error + form_data \<Rightarrow> upload_result io" where
  "upload_POST env formData =
     io_catch
       (io_bind (io_lift formData)
          (\<lambda>form. case form_file form of
               None \<Rightarrow> io_return (Failure 400 ''No file provided'' None)
             | Some file \<Rightarrow>
                 if \<not> env_set (form_userId form) then
                   io_return (Failure 401 ''User ID is required'' None)
                 else
                   let userId = (case form_userId form of Some u \<Rightarrow> u | None \<Rightarrow> []) in
                   io_bind (init_step env)
                     (\<lambda>initialised.
                        if \<not> initialised then
                          io_return (Failure 500 ''Database initialization failed'' None)
                        else
                          io_bind (user_step env userId)
                            (\<lambda>ensured. case ensured of
                                 Inl userError \<Rightarrow>
                                   io_return (Failure 500 ''Failed to create user record''
                                                (Some userError))
                               | Inr finalUserId \<Rightarrow> read_file env file finalUserId))))
       (\<lambda>e. io_then (console (Console UploadFailed [e]))
                (io_return (Failure 500 ''Failed to process file'' (Some e))))"

section \<open>The order of the writes\<close>

text \<open>
  The writes of a row that refers to a user, directly or through its document: a
  document, an embedding, a chat message.
\<close>

fun child_write :: "event \<Rightarrow> bool" where
  "child_write (Sql (InsertDocument i u n t z x)) = True"
| "child_write (Sql (InsertEmbedding i d k c v m)) = True"
| "child_write (Sql (InsertChatMessage i u r c is)) = True"
| "child_write ev = False"

text \<open>
  An event that shows the user's row to be there: the lookup that found it, or the upsert
  that succeeded. \<open>h\<close> is the trace the store answered from.
\<close>

fun user_present :: "env \<Rightarrow> string \<Rightarrow> event list \<Rightarrow> event \<Rightarrow> bool" where
  "user_present env uid h (Sql (SelectUser u)) =
     (u = uid \<and> (case sql_select_user env h u of Inr (Some row) \<Rightarrow> True | _ \<Rightarrow> False))"
| "user_present env uid h (Sql (UpsertUser u e n r)) =
     (u = uid \<and> (case sql_upsert_user env h u e n r of Inr row \<Rightarrow> True | _ \<Rightarrow> False))"
| "user_present env uid h ev = False"

text \<open>Some event of \<open>evs\<close>, issued after the trace \<open>h\<close>, shows the user's row to be there.\<close>

fun ensured :: "env \<Rightarrow> string \<Rightarrow> event list \<Rightarrow> event list \<Rightarrow> bool" where
  "ensured env uid h [] = False"
| "ensured env uid h (ev # evs) =
     (user_present env uid h ev \<or> ensured env uid (h @ [ev]) evs)"

text \<open>
  In the events of a request (\<open>seen\<close> so far, \<open>evs\<close> to come, after the trace \<open>base\<close>),
  every write of a child row comes after an event that shows the user's row to be there.
\<close>

fun user_first :: "env \<Rightarrow> string \<Rightarrow> event list \<Rightarrow> event list \<Rightarrow> event list \<Rightarrow> bool" where
  "user_first env uid base seen [] = True"
| "user_first env uid base seen (ev # evs) =
     ((child_write ev \<longrightarrow> ensured env uid base seen)
      \<and> user_first env uid base (seen @ [ev]) evs)"

text \<open>The weaker order: every write of a child row comes after the lookup of the user.\<close>

fun lookup_first :: "string \<Rightarrow> event list \<Rightarrow> event list \<Rightarrow> bool" where
  "lookup_first uid seen [] = True"
| "lookup_first uid seen (ev # evs) =
     ((child_write ev \<longrightarrow> Sql (SelectUser uid) \<in> set seen)
      \<and> lookup_first uid (seen @ [ev]) evs)"

text \<open>The events a computation adds to the trace of the state it starts from.\<close>

definition new_events :: "'a io \<Rightarrow> state \<Rightarrow> event list" where
  "new_events m s = drop (length (trace s)) (trace (snd (m s)))"

text \<open>A computation only appends to the trace, and every event it appends satisfies \<open>P\<close>.\<close>

definition emits :: "(event \<Rightarrow> bool) \<Rightarrow> 'a io \<Rightarrow> bool" where
  "emits P m = (\<forall>s. \<exists>new. trace (snd (m s)) = trace s @ new \<and> list_all P new)"

section \<open>Sample environments\<close>

text \<open>
  Concrete collaborators for the evaluations below. In \<open>sample_env\<close> every call succeeds,
  the embedding service answers with a vector of 1536 numbers, the primary store holds no
  embedding, the secondary index holds one, and the completion service streams two deltas
  and the end marker. \<open>sample_delta\<close> reads the payloads that occur in the samples the way
  \<^verbatim>\<open>JSON.parse(data).choices?.[0]?.delta?.content\<close> does. \<open>sample_space\<close> and
  \<open>sample_lower\<close> are the host's white space and lower-casing on the characters that occur
  in the samples: tab to carriage return, the space and the no-break space, and the letters
  \<open>A\<close> to \<open>Z\<close>.
\<close>

definition sample_space :: "char \<Rightarrow> bool" where
  "sample_space c =
     (c \<in> set [CHR 0x09, CHR 0x0A, CHR 0x0B, CHR 0x0C, CHR 0x0D, CHR '' '', CHR 0xA0])"

definition lower_char :: "char \<Rightarrow> char" where
  "lower_char c =
     (case map_of (zip ''ABCDEFGHIJKLMNOPQRSTUVWXYZ'' ''abcdefghijklmnopqrstuvwxyz'') c of
        None \<Rightarrow> c
      | Some l \<Rightarrow> l)"

definition sample_lower :: "string \<Rightarrow> string" where
  "sample_lower s = map lower_char s"

definition fresh_state :: state where
  "fresh_state = \<lparr>trace = [], pineconeClient = False\<rparr>"

definition sample_vector :: vec where
  "sample_vector = replicate 1536 0"

definition sample_match :: pinecone_match where
  "sample_match =
     \<lparr>pc_id = ''doc-1-chunk-0'', pc_score = 1,
      pc_metadata = Some [(''content'', Str ''the sky is blue'')]\<rparr>"

definition sky_row :: pg_row where
  "sky_row =
     \<lparr>row_id = ''doc-1-chunk-0'', row_document_id = ''doc-1'',
      row_content = ''the sky is blue'', row_metadata = None, row_similarity = 0\<rparr>"

definition cats_row :: pg_row where
  "cats_row =
     \<lparr>row_id = ''doc-1-chunk-1'', row_document_id = ''doc-1'',
      row_content = ''cats are mammals'', row_metadata = None, row_similarity = 1\<rparr>"

definition hello_payload :: string where
  \<open>hello_payload = ''{"choices":[{"delta":{"content":"Hello"}}]}''\<close>

definition world_payload :: string where
  \<open>world_payload = ''{"choices":[{"delta":{"content":" world"}}]}''\<close>

definition empty_payload :: string where
  \<open>empty_payload = ''{"choices":[{"delta":{"role":"assistant","content":""}}]}''\<close>

definition sample_delta :: "string \<Rightarrow> error + jsval" where
  "sample_delta data =
     (if data = hello_payload then Inr (Str ''Hello'')
      else if data = world_payload then Inr (Str '' world'')
      else if data = empty_payload then Inr (Str [])
      else Inl (External ''SyntaxError''))"

text \<open>One server-sent event of the provider: \<^verbatim>\<open>data: <payload>\n\n\<close>.\<close>

definition frame :: "string \<Rightarrow> string" where
  "frame payload = ''data: '' @ payload @ blank_line"

definition sample_upstream :: upstream where
  "sample_upstream =
     \<lparr>reads = [frame hello_payload, frame world_payload, frame ''[DONE]''],
      read_error = None\<rparr>"

text \<open>The same events in two reads: both deltas in the first, the end marker in the second.\<close>

definition batched_upstream :: upstream where
  "batched_upstream =
     \<lparr>reads = [frame hello_payload @ frame world_payload, frame ''[DONE]''],
      read_error = None\<rparr>"

definition sample_text :: string where
  "sample_text = ''The sky is blue. Cats are mammals.''"

definition sample_env :: env where
  "sample_env =
     \<lparr>OPENROUTER_API_KEY = Some ''sk-or-key'',
      PINECONE_API_KEY = Some ''pc-key'',
      PINECONE_INDEX = Some ''rag-index'',
      DATABASE_URL = Some ''postgres://db'',
      fetch_embeddings = (\<lambda>h input.
         Inr \<lparr>emb_ok = True, emb_status = 200, emb_text = Inr [],
              emb_json = Inr (Some sample_vector)\<rparr>),
      sql_exec = (\<lambda>h q. Inr ()),
      sql_search = (\<lambda>h v k. Inr []),
      sql_select_user = (\<lambda>h u. Inr None),
      sql_upsert_user = (\<lambda>h u e n r.
         Inr (Some \<lparr>user_id = u, user_email = e, user_name = n, user_role = r\<rparr>)),
      sql_select_user_id = (\<lambda>h u. Inr 1),
      pinecone_new = (\<lambda>h k. Inr ()),
      pinecone_upsert = (\<lambda>h ix i v m. Inr ()),
      pinecone_query = (\<lambda>h ix v k. Inr (Some [sample_match])),
      fetch_chat = (\<lambda>h r.
         Inr \<lparr>chat_ok = True, chat_status = 200, chat_text = Inr [],
              chat_body = Some sample_upstream\<rparr>),
      json_delta = sample_delta,
      white_space = sample_space,
      toLowerCase = sample_lower,
      new_message_id = (\<lambda>h. ''msg-1''),
      new_document_id = (\<lambda>h. ''doc-1''),
      iso_now = (\<lambda>h. ''2025-11-20T00:00:00.000Z''),
      extractTextFromPDF = (\<lambda>b. Inr sample_text),
      extractTextFromDOCX = (\<lambda>b. Inr sample_text),
      extractTextFromTXT = (\<lambda>b. Inr b),
      processImage = (\<lambda>b t. Inr (''data:'' @ t @ '';base64,'')),
      chunkText = (\<lambda>t. Inr [''The sky is blue.'', ''Cats are mammals.''])\<rparr>"

text \<open>The service answers with a vector of three numbers.\<close>

definition short_vector_env :: env where
  "short_vector_env =
     sample_env\<lparr>fetch_embeddings := (\<lambda>h input.
        Inr \<lparr>emb_ok = True, emb_status = 200, emb_text = Inr [],
             emb_json = Inr (Some [1, 2, 3])\<rparr>)\<rparr>"

text \<open>The primary store is out of reach.\<close>

definition primary_down_env :: env where
  "primary_down_env =
     sample_env\<lparr>sql_exec := (\<lambda>h q. Inl (External ''connection refused'')),
                 sql_search := (\<lambda>h v k. Inl (External ''connection refused'')),
                 sql_select_user := (\<lambda>h u. Inl (External ''connection refused''))\<rparr>"

text \<open>The secondary index refuses every request.\<close>

definition secondary_down_env :: env where
  "secondary_down_env =
     sample_env\<lparr>pinecone_upsert := (\<lambda>h ix i v m. Inl (External ''index unavailable'')),
                 pinecone_query := (\<lambda>h ix v k. Inl (External ''index unavailable''))\<rparr>"

definition sample_metadata :: metadata where
  "sample_metadata =
     [(''content'', Str ''The sky is blue.''), (''fileName'', Str ''notes.txt''),
      (''fileType'', Str ''text/plain''), (''chunkIndex'', Num 0),
      (''uploadedAt'', Str ''2025-11-20T00:00:00.000Z''), (''documentId'', Str ''doc-1''),
      (''userId'', Str ''user-1'')]"

text \<open>The primary store holds two rows.\<close>

definition two_rows_env :: env where
  "two_rows_env = sample_env\<lparr>sql_search := (\<lambda>h v k. Inr [cats_row, sky_row])\<rparr>"

definition sample_insert :: event where
  "sample_insert =
     Sql (InsertEmbedding ''doc-1-chunk-0'' (Str ''doc-1'') (Num 0) (Str ''The sky is blue.'')
            sample_vector (primary_metadata sample_metadata))"

definition no_key_env :: env where
  "no_key_env = sample_env\<lparr>OPENROUTER_API_KEY := None\<rparr>"

definition other_match :: pinecone_match where
  "other_match =
     \<lparr>pc_id = ''doc-1-chunk-1'', pc_score = 0,
      pc_metadata = Some [(''content'', Str ''cats are mammals'')]\<rparr>"

definition two_matches_env :: env where
  "two_matches_env =
     sample_env\<lparr>pinecone_query := (\<lambda>h ix v k. Inr (Some [sample_match, other_match]))\<rparr>"

definition no_index_env :: env where
  "no_index_env = sample_env\<lparr>PINECONE_INDEX := None\<rparr>"

definition sky_query :: string where
  "sky_query = ''Use the document only. Extract the answer. Question: sky blue''"

definition hello_chat :: chat_input where
  "hello_chat =
     \<lparr>in_messages = [\<lparr>in_role = Some ''user'', in_content = ''hello''\<rparr>],
      in_images = None, in_userId = Some ''user-1''\<rparr>"

definition hello_request :: completion_request where
  "hello_request =
     \<lparr>req_model = ''microsoft/phi-3-medium-128k-instruct'',
      req_messages =
        [\<lparr>msg_role = ''assistant'',
          msg_content = Text (''Here is relevant document context:'' @ [CHR 0x0A, CHR 0x0A])\<rparr>,
         \<lparr>msg_role = ''user'', msg_content = Text ''hello''\<rparr>],
      req_stream = True\<rparr>"

definition flaky_env :: env where
  "flaky_env =
     sample_env\<lparr>fetch_embeddings := (\<lambda>h input.
        if input = ''Cats are mammals.'' then Inl (External ''timeout'')
        else Inr \<lparr>emb_ok = True, emb_status = 200, emb_text = Inr [],
                  emb_json = Inr (Some sample_vector)\<rparr>)\<rparr>"

definition notes_file :: upload_file where
  "notes_file =
     \<lparr>file_name = ''notes.txt'', file_size = 34, file_type = ''text/plain'',
      file_bytes = Inr sample_text\<rparr>"

definition notes_form :: form_data where
  "notes_form = \<lparr>form_userId = Some ''user-1'', form_file = Some notes_file\<rparr>"

definition schema_trace :: "event list" where
  "schema_trace = map (\<lambda>d. Sql (Ddl d)) ddl_statements"


text \<open>The line the chat route prints when its user check raised.\<close>

fun check_failed :: "event \<Rightarrow> bool" where
  "check_failed (Console UserCheckFailed es) = True"
| "check_failed ev = False"

text \<open>
  From a trace with \<open>A\<close>, the computation ends with a result and a trace with \<open>B\<close>.
\<close>

definition hoare :: "(event list \<Rightarrow> bool) \<Rightarrow> 'a io \<Rightarrow> (error + 'a \<Rightarrow> event list \<Rightarrow> bool) \<Rightarrow> bool" where
  "hoare A m B = (\<forall>s. A (trace s) \<longrightarrow> B (fst (m s)) (trace (snd (m s))))"

text \<open>The lookup of the user fails; every other statement succeeds.\<close>

definition lookup_down_env :: env where
  "lookup_down_env =
     no_index_env\<lparr>sql_select_user := (\<lambda>h u. Inl (External ''connection reset''))\<rparr>"

definition hello_embedding :: event where
  "hello_embedding =
     FetchEmbeddings ''Use the document only. Extract the answer. Question: hello''"

definition hello_insert :: event where
  "hello_insert = Sql (InsertChatMessage ''msg-1'' ''user-1'' ''user'' ''hello'' None)"

section \<open>Basic facts\<close>

lemmas io_defs = io_return_def io_throw_def io_bind_def io_then_def io_catch_def io_lift_def
  console_def io_call_def io_read_def

lemma trim_Nil: "trim env [] = []"
  by (simp add: trim_def)

lemma trim_nonspace: "\<not> white_space env c \<Longrightarrow> trim env (c # cs) \<noteq> []"
  by (auto simp: trim_def dropWhile_eq_Nil_conv)

text \<open>The host functions of the sample environments.\<close>

lemma sample_host:
  "white_space sample_env = sample_space" "toLowerCase sample_env = sample_lower"
  "white_space short_vector_env = sample_space" "toLowerCase short_vector_env = sample_lower"
  "white_space primary_down_env = sample_space" "toLowerCase primary_down_env = sample_lower"
  "white_space secondary_down_env = sample_space" "toLowerCase secondary_down_env = sample_lower"
  "white_space two_rows_env = sample_space" "toLowerCase two_rows_env = sample_lower"
  "white_space no_key_env = sample_space" "toLowerCase no_key_env = sample_lower"
  "white_space two_matches_env = sample_space" "toLowerCase two_matches_env = sample_lower"
  "white_space no_index_env = sample_space" "toLowerCase no_index_env = sample_lower"
  "white_space flaky_env = sample_space" "toLowerCase flaky_env = sample_lower"
  "white_space lookup_down_env = sample_space" "toLowerCase lookup_down_env = sample_lower"
  by (simp_all add: sample_env_def short_vector_env_def primary_down_env_def
        secondary_down_env_def two_rows_env_def no_key_env_def two_matches_env_def
        no_index_env_def flaky_env_def lookup_down_env_def)

lemma trim_hello: "white_space env = sample_space \<Longrightarrow> trim env ''hello'' = ''hello''"
  by (simp add: trim_def sample_space_def)

section \<open>The dimension check\<close>

lemma store_rejects:
  "length v \<noteq> 1536 \<Longrightarrow> storeEmbedding env ident v md s =
     (Inl (InvalidEmbedding (length v)),
      s\<lparr>trace := trace s @ [Console StoreFailed [InvalidEmbedding (length v)]]\<rparr>)"
  by (simp add: storeEmbedding_def io_defs)

lemma query_rejects:
  "length v \<noteq> 1536 \<Longrightarrow> queryEmbeddings env v topK s =
     (Inr [], s\<lparr>trace := trace s @ [Console QueryFailed [InvalidQueryEmbedding (length v)]]\<rparr>)"
  by (simp add: queryEmbeddings_def io_defs)

lemma embed_never_returns:
  "length v \<noteq> 1536 \<Longrightarrow> fst (embedText env text s) \<noteq> Inr v"
  by (auto simp add: embedText_def io_defs Let_def
           split: sum.splits option.splits if_splits prod.splits)

lemma embed_raises:
  "length v \<noteq> 1536 \<Longrightarrow> trim env text \<noteq> [] \<Longrightarrow> env_set (OPENROUTER_API_KEY env) \<Longrightarrow>
   fetch_embeddings env (trace s) (trim env (collapse_ws env (take 8000 text))) = Inr r \<Longrightarrow>
   emb_ok r \<Longrightarrow> emb_json r = Inr (Some v) \<Longrightarrow>
   embedText env text s =
     (Inl (InvalidEmbeddingDimensions (length v)),
      s\<lparr>trace := trace s @ [FetchEmbeddings (trim env (collapse_ws env (take 8000 text))),
          Console EmbeddingFailed [InvalidEmbeddingDimensions (length v)]]\<rparr>)"
  by (auto simp add: embedText_def io_defs Let_def trim_Nil
           split: sum.splits option.splits if_splits prod.splits)

text \<open>
  Claim C1, as the code has it. For a vector \<open>v\<close> whose length is not 1536:
  \<open>embedText\<close> never returns \<open>v\<close>, and raises the dimension error when the service
  answers with \<open>v\<close>; \<open>storeEmbedding\<close> raises its error, and the only event it leaves is
  the line its handler prints, so no store was called; \<open>queryEmbeddings\<close> calls no store
  and no network either, but its own handler catches the error it raised: the caller
  receives the empty list, not an error.
\<close>

theorem dimension_checked_at_every_boundary:
  "length v \<noteq> 1536 \<Longrightarrow>
     fst (embedText env text s) \<noteq> Inr v
   \<and> (trim env text \<noteq> [] \<and> env_set (OPENROUTER_API_KEY env)
        \<and> fetch_embeddings env (trace s) (trim env (collapse_ws env (take 8000 text))) = Inr r
        \<and> emb_ok r \<and> emb_json r = Inr (Some v)
      \<longrightarrow> fst (embedText env text s) = Inl (InvalidEmbeddingDimensions (length v)))
   \<and> storeEmbedding env ident v md s =
       (Inl (InvalidEmbedding (length v)),
        s\<lparr>trace := trace s @ [Console StoreFailed [InvalidEmbedding (length v)]]\<rparr>)
   \<and> queryEmbeddings env v topK s =
       (Inr [], s\<lparr>trace := trace s @ [Console QueryFailed [InvalidQueryEmbedding (length v)]]\<rparr>)"
  using store_rejects query_rejects embed_never_returns embed_raises by simp

theorem dimension_checked_at_every_boundary_witness:
  "length ([1, 2, 3] :: vec) \<noteq> 1536
   \<and> fst (embedText short_vector_env ''hello'' fresh_state) = Inl (InvalidEmbeddingDimensions 3)
   \<and> fst (storeEmbedding short_vector_env ''doc-1-chunk-0'' [1, 2, 3] [] fresh_state)
       = Inl (InvalidEmbedding 3)
   \<and> filter external_call
       (trace (snd (storeEmbedding short_vector_env ''doc-1-chunk-0'' [1, 2, 3] [] fresh_state)))
       = []
   \<and> fst (queryEmbeddings short_vector_env [1, 2, 3] 5 fresh_state) = Inr []
   \<and> filter external_call
       (trace (snd (queryEmbeddings short_vector_env [1, 2, 3] 5 fresh_state))) = []"
  using dimension_checked_at_every_boundary [of "[1, 2, 3]" short_vector_env "''hello''"
      fresh_state
      "\<lparr>emb_ok = True, emb_status = 200, emb_text = Inr [], emb_json = Inr (Some [1, 2, 3])\<rparr>"
      "''doc-1-chunk-0''" "[]" 5]
  by (simp add: trim_hello sample_host short_vector_env_def sample_env_def fresh_state_def)

text \<open>
  Claim C1 as stated fails for \<open>queryEmbeddings\<close>: on a vector of three numbers the call
  does not end in an error, it returns the empty list.
\<close>

theorem query_rejection_is_not_raised:
  "length ([1, 2, 3] :: vec) \<noteq> 1536
   \<and> fst (queryEmbeddings sample_env [1, 2, 3] 5 fresh_state) = Inr []"
  by (simp add: query_rejects)

section \<open>\<^verbatim>\<open>queryEmbeddings\<close>: one store or the other, never an error\<close>

lemma length_sample_vector: "length sample_vector = 1536"
  by (simp add: sample_vector_def)

lemma search_trace:
  "db_embeddings_search env q k s = (r, s1) \<Longrightarrow>
     prefix (trace s) (trace s1) \<and> pineconeClient s1 = pineconeClient s
     \<and> filter secondary_call (trace s1) = filter secondary_call (trace s)"
  by (auto simp: db_embeddings_search_def getDb_def io_defs split: if_splits sum.splits)

lemma initPinecone_trace:
  "initPinecone env s = (r, s1) \<Longrightarrow> prefix (trace s) (trace s1)"
  by (auto simp: initPinecone_def io_defs split: if_splits sum.splits option.splits)

lemma initPinecone_total:
  "\<exists>b. fst (initPinecone env s) = Inr b"
  by (auto simp: initPinecone_def io_defs split: if_splits sum.splits option.splits)

lemma query_primary_hit:
  "length q = 1536 \<Longrightarrow> rows \<noteq> [] \<Longrightarrow> db_embeddings_search env q k s = (Inr rows, s1) \<Longrightarrow>
     queryEmbeddings env q k s = (Inr (map PgRow rows), s1)"
  by (simp add: queryEmbeddings_def io_defs)

lemma query_secondary_hit:
  "length q = 1536 \<Longrightarrow> db_embeddings_search env q k s = (Inr [], s1) \<Longrightarrow>
   PINECONE_INDEX env = Some ix \<Longrightarrow> ix \<noteq> [] \<Longrightarrow> initPinecone env s1 = (Inr True, s2) \<Longrightarrow>
   pinecone_query env (trace s2) ix q k = Inr (Some ms) \<Longrightarrow> ms \<noteq> [] \<Longrightarrow>
     queryEmbeddings env q k s =
       (Inr (map PineconeMatch ms), s2\<lparr>trace := trace s2 @ [PineconeQuery ix q k]\<rparr>)"
  by (simp add: queryEmbeddings_def io_defs)

lemma query_one_store:
  "(\<exists>rows. fst (queryEmbeddings env q k s) = Inr (map PgRow rows))
   \<or> (\<exists>ms. fst (queryEmbeddings env q k s) = Inr (map PineconeMatch ms))"
proof (cases "length q = 1536")
  case False
  then have "fst (queryEmbeddings env q k s) = Inr (map PgRow [])"
    by (simp add: queryEmbeddings_def io_defs)
  then show ?thesis by blast
next
  case True
  obtain r s1 where r: "db_embeddings_search env q k s = (r, s1)"
    by (cases "db_embeddings_search env q k s")
  show ?thesis
  proof (cases r)
    case (Inr rows)
    show ?thesis
    proof (cases "rows = []")
      case False
      with True r Inr show ?thesis by (auto simp: query_primary_hit)
    next
      case rows: True
      have "\<exists>ms. fst (queryEmbeddings env q k s) = Inr (map PineconeMatch ms)"
        using True r Inr rows
        apply (simp add: queryEmbeddings_def io_defs split: option.splits sum.splits prod.splits)
        apply (auto intro: exI[of _ "[]"])
        done
      then show ?thesis by blast
    qed
  next
    case (Inl e)
    have "\<exists>ms. fst (queryEmbeddings env q k s) = Inr (map PineconeMatch ms)"
      using True r Inl
      apply (simp add: queryEmbeddings_def io_defs split: option.splits sum.splits prod.splits)
      apply (auto intro: exI[of _ "[]"])
      done
    then show ?thesis by blast
  qed
qed


lemma query_trace:
  assumes "length q = 1536"
  shows "prefix (trace (snd (db_embeddings_search env q k s)))
           (trace (snd (queryEmbeddings env q k s)))"
proof -
  obtain r s1 where r: "db_embeddings_search env q k s = (r, s1)"
    by (cases "db_embeddings_search env q k s")
  show ?thesis
    using assms r
    apply (simp add: queryEmbeddings_def io_defs split: option.splits sum.splits prod.splits)
    apply (auto dest!: initPinecone_trace elim: prefix_order.trans simp: prefix_def)
    done
qed

lemma query_never_raises: "\<exists>ms. fst (queryEmbeddings env q k s) = Inr ms"
  using query_one_store by blast

lemma query_secondary_error:
  "length q = 1536 \<Longrightarrow> db_embeddings_search env q k s = (Inr [], s1) \<Longrightarrow>
   PINECONE_INDEX env = Some ix \<Longrightarrow> ix \<noteq> [] \<Longrightarrow> initPinecone env s1 = (Inr True, s2) \<Longrightarrow>
   pinecone_query env (trace s2) ix q k = Inl e \<Longrightarrow>
     queryEmbeddings env q k s =
       (Inr [], s2\<lparr>trace := trace s2 @ [PineconeQuery ix q k, Console PineconeQueryFailed [e]]\<rparr>)"
  by (simp add: queryEmbeddings_def io_defs)

lemma query_primary_error_fallback:
  "length q = 1536 \<Longrightarrow> db_embeddings_search env q k s = (Inl e, s1) \<Longrightarrow>
   PINECONE_INDEX env = Some ix \<Longrightarrow> ix \<noteq> [] \<Longrightarrow>
   initPinecone env (s1\<lparr>trace := trace s1 @ [Console PostgresQueryFailed [e]]\<rparr>) = (Inr True, s2) \<Longrightarrow>
   pinecone_query env (trace s2) ix q k = Inr (Some ms) \<Longrightarrow> ms \<noteq> [] \<Longrightarrow>
     queryEmbeddings env q k s =
       (Inr (map PineconeMatch ms), s2\<lparr>trace := trace s2 @ [PineconeQuery ix q k]\<rparr>)"
  by (simp add: queryEmbeddings_def io_defs)

lemma query_primary_error_alone:
  "length q = 1536 \<Longrightarrow> db_embeddings_search env q k s = (Inl e, s1) \<Longrightarrow>
   \<not> env_set (PINECONE_INDEX env) \<Longrightarrow>
     queryEmbeddings env q k s =
       (Inr [], s1\<lparr>trace := trace s1 @ [Console PostgresQueryFailed [e]]\<rparr>)"
  by (cases "PINECONE_INDEX env") (simp_all add: queryEmbeddings_def io_defs)

lemma sample_search:
  "db_embeddings_search sample_env sample_vector 5 fresh_state =
     (Inr [], fresh_state\<lparr>trace := [Sql (SearchEmbeddings sample_vector 5)]\<rparr>)"
  by (simp add: db_embeddings_search_def getDb_def io_defs sample_env_def fresh_state_def
        length_sample_vector)

lemma sample_query:
  "queryEmbeddings sample_env sample_vector 5 fresh_state =
     (Inr [PineconeMatch sample_match],
      \<lparr>trace = [Sql (SearchEmbeddings sample_vector 5), PineconeNew ''pc-key'',
                PineconeQuery ''rag-index'' sample_vector 5], pineconeClient = True\<rparr>)"
  by (simp add: queryEmbeddings_def db_embeddings_search_def initPinecone_def getDb_def io_defs
        sample_env_def fresh_state_def length_sample_vector)

lemma down_query:
  "queryEmbeddings primary_down_env sample_vector 5 fresh_state =
     (Inr [PineconeMatch sample_match],
      \<lparr>trace = [Sql (SearchEmbeddings sample_vector 5),
                Console EmbeddingSearchFailed [External ''connection refused''],
                Console PostgresQueryFailed [External ''connection refused''],
                PineconeNew ''pc-key'',
                PineconeQuery ''rag-index'' sample_vector 5], pineconeClient = True\<rparr>)"
  by (simp add: queryEmbeddings_def db_embeddings_search_def initPinecone_def getDb_def io_defs
        primary_down_env_def sample_env_def fresh_state_def length_sample_vector)


text \<open>
  Claim C2, as the code has it. For a query vector of the right length: when the primary
  store's search yields rows, exactly these are returned and the trace holds no call to the
  secondary index; when it yields none and the secondary index is configured and answers
  with matches, these are returned as the index delivered them, in its own shape and not in
  the shape of a row; one call returns results of one store only; and the trace of the
  call begins with the trace of the primary search.
\<close>

theorem primary_or_secondary:
  "length q = 1536 \<Longrightarrow>
     (rows \<noteq> [] \<and> db_embeddings_search env q k s = (Inr rows, s1)
        \<longrightarrow> queryEmbeddings env q k s = (Inr (map PgRow rows), s1)
            \<and> filter secondary_call (trace s1) = filter secondary_call (trace s))
   \<and> (db_embeddings_search env q k s = (Inr [], s1) \<and> PINECONE_INDEX env = Some ix \<and> ix \<noteq> []
        \<and> initPinecone env s1 = (Inr True, s2)
        \<and> pinecone_query env (trace s2) ix q k = Inr (Some ms) \<and> ms \<noteq> []
        \<longrightarrow> queryEmbeddings env q k s =
              (Inr (map PineconeMatch ms), s2\<lparr>trace := trace s2 @ [PineconeQuery ix q k]\<rparr>))
   \<and> ((\<exists>rows. fst (queryEmbeddings env q k s) = Inr (map PgRow rows))
        \<or> (\<exists>ms. fst (queryEmbeddings env q k s) = Inr (map PineconeMatch ms)))
   \<and> prefix (trace (snd (db_embeddings_search env q k s)))
        (trace (snd (queryEmbeddings env q k s)))"
  using query_primary_hit [of q rows env k s s1] search_trace [of env q k s "Inr rows" s1]
    query_secondary_hit [of q env k s s1 ix s2 ms] query_one_store [of env q k s]
    query_trace [of q env k s]
  by blast

lemma two_rows_search:
  "db_embeddings_search two_rows_env sample_vector 5 fresh_state =
     (Inr [cats_row, sky_row], fresh_state\<lparr>trace := [Sql (SearchEmbeddings sample_vector 5)]\<rparr>)"
  by (simp add: db_embeddings_search_def getDb_def io_defs two_rows_env_def sample_env_def
        fresh_state_def length_sample_vector)

lemma sample_initPinecone:
  "initPinecone sample_env (fresh_state\<lparr>trace := [Sql (SearchEmbeddings sample_vector 5)]\<rparr>) =
     (Inr True, \<lparr>trace = [Sql (SearchEmbeddings sample_vector 5), PineconeNew ''pc-key''],
                 pineconeClient = True\<rparr>)"
  by (simp add: initPinecone_def io_defs sample_env_def fresh_state_def)

text \<open>
  The theorem at two environments: a primary store with two rows, and an empty primary
  store beside a secondary index with one match.
\<close>

theorem primary_or_secondary_witness:
  "length sample_vector = 1536
   \<and> fst (queryEmbeddings two_rows_env sample_vector 5 fresh_state)
       = Inr [PgRow cats_row, PgRow sky_row]
   \<and> filter secondary_call
        (trace (snd (queryEmbeddings two_rows_env sample_vector 5 fresh_state))) = []
   \<and> fst (db_embeddings_search sample_env sample_vector 5 fresh_state) = Inr []
   \<and> fst (queryEmbeddings sample_env sample_vector 5 fresh_state)
       = Inr [PineconeMatch sample_match]"
  using primary_or_secondary [of sample_vector "[cats_row, sky_row]" two_rows_env 5 fresh_state
      "fresh_state\<lparr>trace := [Sql (SearchEmbeddings sample_vector 5)]\<rparr>"]
    primary_or_secondary [of sample_vector "[]" sample_env 5 fresh_state
      "fresh_state\<lparr>trace := [Sql (SearchEmbeddings sample_vector 5)]\<rparr>" "''rag-index''"
      "\<lparr>trace = [Sql (SearchEmbeddings sample_vector 5), PineconeNew ''pc-key''],
        pineconeClient = True\<rparr>" "[sample_match]"]
    two_rows_search sample_search sample_initPinecone
  by (simp add: length_sample_vector fresh_state_def sample_env_def)

text \<open>
  Claim C2 as stated fails on the translation: with an empty primary store the result is
  the secondary index's match itself, which is not in the shape of a row.
\<close>

theorem secondary_matches_are_not_translated:
  "fst (db_embeddings_search sample_env sample_vector 5 fresh_state) = Inr []
   \<and> fst (queryEmbeddings sample_env sample_vector 5 fresh_state)
       = Inr [PineconeMatch sample_match]
   \<and> \<not> list_all row_shaped [PineconeMatch sample_match]"
  by (simp add: sample_search sample_query)

text \<open>
  Claim C10, as the code has it. \<open>queryEmbeddings\<close> never raises. A vector of the wrong
  length gives the empty list; an error of the secondary index gives the empty list; an
  error of the primary search gives the empty list when no secondary index is configured,
  and otherwise the search falls back to the secondary index and returns its matches.
\<close>

theorem queryEmbeddings_never_raises:
  "(\<exists>ms. fst (queryEmbeddings env q k s) = Inr ms)
   \<and> (length q \<noteq> 1536 \<longrightarrow> fst (queryEmbeddings env q k s) = Inr [])
   \<and> (length q = 1536 \<and> db_embeddings_search env q k s = (Inr [], s1)
        \<and> PINECONE_INDEX env = Some ix \<and> ix \<noteq> [] \<and> initPinecone env s1 = (Inr True, s2)
        \<and> pinecone_query env (trace s2) ix q k = Inl e
        \<longrightarrow> fst (queryEmbeddings env q k s) = Inr [])
   \<and> (length q = 1536 \<and> db_embeddings_search env q k s = (Inl e, s1)
        \<and> \<not> env_set (PINECONE_INDEX env)
        \<longrightarrow> fst (queryEmbeddings env q k s) = Inr [])
   \<and> (length q = 1536 \<and> db_embeddings_search env q k s = (Inl e, s1)
        \<and> PINECONE_INDEX env = Some ix \<and> ix \<noteq> []
        \<and> initPinecone env (s1\<lparr>trace := trace s1 @ [Console PostgresQueryFailed [e]]\<rparr>)
            = (Inr True, s2)
        \<and> pinecone_query env (trace s2) ix q k = Inr (Some ms') \<and> ms' \<noteq> []
        \<longrightarrow> fst (queryEmbeddings env q k s) = Inr (map PineconeMatch ms'))"
  using query_never_raises [of env q k s] query_rejects [of q env k s]
    query_secondary_error [of q env k s s1 ix s2 e]
    query_primary_error_alone [of q env k s e s1]
    query_primary_error_fallback [of q env k s e s1 ix s2 ms']
  by simp

lemma down_search:
  "db_embeddings_search primary_down_env sample_vector 5 fresh_state =
     (Inl (External ''connection refused''),
      fresh_state\<lparr>trace := [Sql (SearchEmbeddings sample_vector 5),
         Console EmbeddingSearchFailed [External ''connection refused'']]\<rparr>)"
  by (simp add: db_embeddings_search_def getDb_def io_defs primary_down_env_def sample_env_def
        fresh_state_def length_sample_vector)

lemma down_initPinecone:
  "initPinecone primary_down_env
     (fresh_state\<lparr>trace := [Sql (SearchEmbeddings sample_vector 5),
         Console EmbeddingSearchFailed [External ''connection refused'']]\<rparr>
       \<lparr>trace := trace (fresh_state\<lparr>trace := [Sql (SearchEmbeddings sample_vector 5),
         Console EmbeddingSearchFailed [External ''connection refused'']]\<rparr>) @
           [Console PostgresQueryFailed [External ''connection refused'']]\<rparr>) =
     (Inr True, \<lparr>trace = [Sql (SearchEmbeddings sample_vector 5),
         Console EmbeddingSearchFailed [External ''connection refused''],
         Console PostgresQueryFailed [External ''connection refused''],
         PineconeNew ''pc-key''], pineconeClient = True\<rparr>)"
  by (simp add: initPinecone_def io_defs primary_down_env_def sample_env_def fresh_state_def)

text \<open>
  The theorem at a vector of three numbers, and at an unreachable primary store beside a
  secondary index with one match.
\<close>

theorem queryEmbeddings_never_raises_witness:
  "length ([1, 2, 3] :: vec) \<noteq> 1536
   \<and> fst (queryEmbeddings sample_env [1, 2, 3] 5 fresh_state) = Inr []
   \<and> length sample_vector = 1536
   \<and> fst (db_embeddings_search primary_down_env sample_vector 5 fresh_state)
       = Inl (External ''connection refused'')
   \<and> fst (queryEmbeddings primary_down_env sample_vector 5 fresh_state)
       = Inr (map PineconeMatch [sample_match])"
  using queryEmbeddings_never_raises [of sample_env "[1, 2, 3]" 5 fresh_state]
    queryEmbeddings_never_raises [of primary_down_env sample_vector 5 fresh_state _ _ _
      "External ''connection refused''", 
      where ?s1.0 = "fresh_state\<lparr>trace := [Sql (SearchEmbeddings sample_vector 5),
         Console EmbeddingSearchFailed [External ''connection refused'']]\<rparr>"
       and ix = "''rag-index''"
       and ?s2.0 = "\<lparr>trace = [Sql (SearchEmbeddings sample_vector 5),
         Console EmbeddingSearchFailed [External ''connection refused''],
         Console PostgresQueryFailed [External ''connection refused''],
         PineconeNew ''pc-key''], pineconeClient = True\<rparr>"
       and ms' = "[sample_match]"]
    down_search down_initPinecone
  by (simp add: length_sample_vector primary_down_env_def sample_env_def)

text \<open>
  Claim C10 as stated fails on the primary store's error: the search of the primary store
  raises, and the call returns the match of the secondary index, not the empty list.
\<close>

theorem primary_error_falls_back:
  "fst (db_embeddings_search primary_down_env sample_vector 5 fresh_state)
     = Inl (External ''connection refused'')
   \<and> fst (queryEmbeddings primary_down_env sample_vector 5 fresh_state)
       = Inr [PineconeMatch sample_match]
   \<and> [PineconeMatch sample_match] \<noteq> []"
  by (simp add: down_search down_query)

section \<open>\<^verbatim>\<open>storeEmbedding\<close>: the two stores\<close>

lemma create_trace:
  "db_embeddings_create env ident d i c v md s = (r, s1) \<Longrightarrow>
     prefix (trace s) (trace s1) \<and> pineconeClient s1 = pineconeClient s
     \<and> filter secondary_call (trace s1) = filter secondary_call (trace s)"
  by (auto simp: db_embeddings_create_def getDb_def io_defs split: if_splits sum.splits)

lemma store_primary_fails:
  "length v = 1536 \<Longrightarrow>
   db_embeddings_create env ident (md_get md ''documentId'') (md_get md ''chunkIndex'')
     (md_get md ''content'') v (primary_metadata md) s = (Inl e, s1) \<Longrightarrow>
   storeEmbedding env ident v md s =
     (Inl e, s1\<lparr>trace := trace s1 @ [Console PostgresStorageFailed [e], Console StoreFailed [e]]\<rparr>)"
  by (simp add: storeEmbedding_def io_defs)

lemma store_primary_ok:
  "length v = 1536 \<Longrightarrow>
   db_embeddings_create env ident (md_get md ''documentId'') (md_get md ''chunkIndex'')
     (md_get md ''content'') v (primary_metadata md) s = (Inr (), s1) \<Longrightarrow>
   fst (storeEmbedding env ident v md s) = Inr ()
   \<and> prefix (trace s1) (trace (snd (storeEmbedding env ident v md s)))"
  apply (simp add: storeEmbedding_def io_defs split: option.splits sum.splits prod.splits)
  apply (auto dest!: initPinecone_trace elim: prefix_order.trans simp: prefix_def)
  done

lemma store_secondary_fails:
  "length v = 1536 \<Longrightarrow>
   db_embeddings_create env ident (md_get md ''documentId'') (md_get md ''chunkIndex'')
     (md_get md ''content'') v (primary_metadata md) s = (Inr (), s1) \<Longrightarrow>
   PINECONE_INDEX env = Some ix \<Longrightarrow> ix \<noteq> [] \<Longrightarrow> initPinecone env s1 = (Inr True, s2) \<Longrightarrow>
   pinecone_upsert env (trace s2) ix ident v (cleanMetadata md) = Inl e \<Longrightarrow>
   storeEmbedding env ident v md s =
     (Inr (), s2\<lparr>trace := trace s2 @ [PineconeUpsert ix ident v (cleanMetadata md),
                   Console PineconeStorageFailed [e], Console PartialSuccess [e]]\<rparr>)"
  by (simp add: storeEmbedding_def io_defs)

text \<open>
  Claim C6. For a vector of the right length \<open>storeEmbedding\<close> writes to the primary
  store first. When that write raises, the same error reaches the caller, and nothing was
  sent to the secondary index. When it succeeds, \<open>storeEmbedding\<close> returns without an
  error whatever the secondary index does; an error of the secondary write is put on the
  list of errors and printed (the events \<open>PineconeStorageFailed\<close> and \<open>PartialSuccess\<close>).
\<close>

theorem primary_write_is_critical_secondary_is_not:
  "length v = 1536 \<Longrightarrow>
     (db_embeddings_create env ident (md_get md ''documentId'') (md_get md ''chunkIndex'')
        (md_get md ''content'') v (primary_metadata md) s = (Inl e, s1)
      \<longrightarrow> storeEmbedding env ident v md s =
            (Inl e, s1\<lparr>trace := trace s1 @
               [Console PostgresStorageFailed [e], Console StoreFailed [e]]\<rparr>)
          \<and> filter secondary_call (trace s1) = filter secondary_call (trace s))
   \<and> (db_embeddings_create env ident (md_get md ''documentId'') (md_get md ''chunkIndex'')
        (md_get md ''content'') v (primary_metadata md) s = (Inr (), s1)
      \<longrightarrow> fst (storeEmbedding env ident v md s) = Inr ()
          \<and> prefix (trace s1) (trace (snd (storeEmbedding env ident v md s)))
          \<and> filter secondary_call (trace s1) = filter secondary_call (trace s)
          \<and> (PINECONE_INDEX env = Some ix \<and> ix \<noteq> [] \<and> initPinecone env s1 = (Inr True, s2)
               \<and> pinecone_upsert env (trace s2) ix ident v (cleanMetadata md) = Inl e'
             \<longrightarrow> storeEmbedding env ident v md s =
                   (Inr (), s2\<lparr>trace := trace s2 @
                      [PineconeUpsert ix ident v (cleanMetadata md),
                       Console PineconeStorageFailed [e'], Console PartialSuccess [e']]\<rparr>)))"
  using store_primary_fails [of v env ident md s e s1] store_primary_ok [of v env ident md s s1]
    store_secondary_fails [of v env ident md s s1 ix s2 e']
    create_trace [of env ident "md_get md ''documentId''" "md_get md ''chunkIndex''"
      "md_get md ''content''" v "primary_metadata md" s]
  by blast

lemma sample_md_get:
  "md_get sample_metadata ''documentId'' = Str ''doc-1''"
  "md_get sample_metadata ''chunkIndex'' = Num 0"
  "md_get sample_metadata ''content'' = Str ''The sky is blue.''"
  by (simp_all add: md_get_def sample_metadata_def)

lemma down_create:
  "db_embeddings_create primary_down_env ''doc-1-chunk-0'' (md_get sample_metadata ''documentId'')
     (md_get sample_metadata ''chunkIndex'') (md_get sample_metadata ''content'') sample_vector
     (primary_metadata sample_metadata) fresh_state =
   (Inl (External ''connection refused''),
    \<lparr>trace = [sample_insert, Console EmbeddingStorageFailed [External ''connection refused'']],
     pineconeClient = False\<rparr>)"
  by (simp add: db_embeddings_create_def getDb_def io_defs primary_down_env_def sample_env_def
        fresh_state_def length_sample_vector sample_md_get sample_insert_def)

lemma secondary_down_create:
  "db_embeddings_create secondary_down_env ''doc-1-chunk-0''
     (md_get sample_metadata ''documentId'')
     (md_get sample_metadata ''chunkIndex'') (md_get sample_metadata ''content'') sample_vector
     (primary_metadata sample_metadata) fresh_state =
   (Inr (), \<lparr>trace = [sample_insert], pineconeClient = False\<rparr>)"
  by (simp add: db_embeddings_create_def getDb_def io_defs secondary_down_env_def sample_env_def
        fresh_state_def length_sample_vector sample_md_get sample_insert_def)

lemma secondary_down_init:
  "initPinecone secondary_down_env \<lparr>trace = [sample_insert], pineconeClient = False\<rparr> =
   (Inr True, \<lparr>trace = [sample_insert, PineconeNew ''pc-key''], pineconeClient = True\<rparr>)"
  by (simp add: initPinecone_def io_defs secondary_down_env_def sample_env_def)

text \<open>
  The theorem at an unreachable primary store, and at a secondary index that refuses the
  write after the primary store accepted it.
\<close>

theorem primary_write_is_critical_secondary_is_not_witness:
  "length sample_vector = 1536
   \<and> fst (db_embeddings_create primary_down_env ''doc-1-chunk-0''
            (md_get sample_metadata ''documentId'') (md_get sample_metadata ''chunkIndex'')
            (md_get sample_metadata ''content'') sample_vector
            (primary_metadata sample_metadata) fresh_state)
       = Inl (External ''connection refused'')
   \<and> fst (storeEmbedding primary_down_env ''doc-1-chunk-0'' sample_vector sample_metadata
            fresh_state) = Inl (External ''connection refused'')
   \<and> fst (db_embeddings_create secondary_down_env ''doc-1-chunk-0''
            (md_get sample_metadata ''documentId'') (md_get sample_metadata ''chunkIndex'')
            (md_get sample_metadata ''content'') sample_vector
            (primary_metadata sample_metadata) fresh_state) = Inr ()
   \<and> storeEmbedding secondary_down_env ''doc-1-chunk-0'' sample_vector sample_metadata
        fresh_state =
       (Inr (), \<lparr>trace = [sample_insert, PineconeNew ''pc-key'',
                   PineconeUpsert ''rag-index'' ''doc-1-chunk-0'' sample_vector
                     (cleanMetadata sample_metadata),
                   Console PineconeStorageFailed [External ''index unavailable''],
                   Console PartialSuccess [External ''index unavailable'']],
                 pineconeClient = True\<rparr>)"
  using primary_write_is_critical_secondary_is_not [of sample_vector primary_down_env
      "''doc-1-chunk-0''" sample_metadata fresh_state "External ''connection refused''"
      "\<lparr>trace = [sample_insert, Console EmbeddingStorageFailed [External ''connection refused'']],
        pineconeClient = False\<rparr>"]
    primary_write_is_critical_secondary_is_not [of sample_vector secondary_down_env
      "''doc-1-chunk-0''" sample_metadata fresh_state _
      "\<lparr>trace = [sample_insert], pineconeClient = False\<rparr>" "''rag-index''"
      "\<lparr>trace = [sample_insert, PineconeNew ''pc-key''], pineconeClient = True\<rparr>"
      "External ''index unavailable''"]
    down_create secondary_down_create secondary_down_init
  by (simp add: length_sample_vector secondary_down_env_def sample_env_def)

section \<open>\<^verbatim>\<open>retrieveContext\<close>: best effort\<close>

lemma retrieve_total: "\<exists>c. fst (retrieveContext env query s) = Inr c"
  by (auto simp: retrieveContext_def io_defs split: sum.splits prod.splits)

lemma retrieve_blank: "trim env query = [] \<Longrightarrow> retrieveContext env query s = (Inr [], s)"
  by (simp add: retrieveContext_def io_defs)

lemma retrieve_embed_fails:
  "trim env query \<noteq> [] \<Longrightarrow> embedText env (rewrite_query query) s = (Inl e, s1) \<Longrightarrow>
   retrieveContext env query s =
     (Inr [], s1\<lparr>trace := trace s1 @ [Console ContextRetrievalFailed [e]]\<rparr>)"
  by (auto simp: retrieveContext_def io_defs trim_Nil)

lemma retrieve_no_match:
  "trim env query \<noteq> [] \<Longrightarrow> embedText env (rewrite_query query) s = (Inr v, s1) \<Longrightarrow>
   queryEmbeddings env v 10 s1 = (Inr [], s2) \<Longrightarrow>
   retrieveContext env query s = (Inr [], s2)"
  by (auto simp: retrieveContext_def io_defs trim_Nil sort_matches_def)

lemma retrieve_sort_fails:
  "trim env query \<noteq> [] \<Longrightarrow> embedText env (rewrite_query query) s = (Inr v, s1) \<Longrightarrow>
   queryEmbeddings env v 10 s1 = (Inr ms, s2) \<Longrightarrow> sort_matches env query ms = Inl e \<Longrightarrow>
   retrieveContext env query s =
     (Inr [], s2\<lparr>trace := trace s2 @ [Console ContextRetrievalFailed [e]]\<rparr>)"
  by (auto simp: retrieveContext_def io_defs trim_Nil)

lemma retrieve_ranked:
  "trim env query \<noteq> [] \<Longrightarrow> embedText env (rewrite_query query) s = (Inr v, s1) \<Longrightarrow>
   queryEmbeddings env v 10 s1 = (Inr ms, s2) \<Longrightarrow> ms \<noteq> [] \<Longrightarrow>
   \<forall>m \<in> set ms. is_str (match_content m) \<Longrightarrow>
   retrieveContext env query s =
     (Inr (join blank_line (filter (\<lambda>c. c \<noteq> []) (map extract_content
        (sort_key (\<lambda>m. - textSimilarity env query (str_of (match_content m))) ms)))), s2)"
  by (auto simp: retrieveContext_def io_defs trim_Nil sort_matches_def)

text \<open>A query is blank when it is empty or all its characters are white space.\<close>

lemma dropWhile_all: "(\<forall>x \<in> set (dropWhile P xs). P x) \<longleftrightarrow> (\<forall>x \<in> set xs. P x)"
proof
  assume rest: "\<forall>x \<in> set (dropWhile P xs). P x"
  have "dropWhile P xs = []"
  proof (rule ccontr)
    assume "dropWhile P xs \<noteq> []"
    then have "\<not> P (hd (dropWhile P xs))" "hd (dropWhile P xs) \<in> set (dropWhile P xs)"
      by (simp_all add: hd_dropWhile)
    with rest show False by blast
  qed
  then show "\<forall>x \<in> set xs. P x"
    by (simp add: dropWhile_eq_Nil_conv)
next
  assume "\<forall>x \<in> set xs. P x"
  then show "\<forall>x \<in> set (dropWhile P xs). P x"
    by (auto dest: set_dropWhileD)
qed

lemma trim_blank_iff: "trim env query = [] \<longleftrightarrow> (\<forall>c \<in> set query. white_space env c)"
  by (simp add: trim_def dropWhile_eq_Nil_conv dropWhile_all)

text \<open>
  Claim C5. \<open>retrieveContext\<close> never raises: its result is always a string. For a query
  that is empty or consists of white space only (the host's \<^verbatim>\<open>trim\<close> leaves nothing of it)
  it returns the empty string and leaves the state as it was, so nothing was called, the
  embedding service included. A failure of the embedding, a search without a match, and a
  failure of the re-ranking all end in the empty string; the assembly of the context is a
  pure function and cannot fail.
\<close>

theorem retrieveContext_is_best_effort:
  "(\<exists>c. fst (retrieveContext env query s) = Inr c)
   \<and> ((\<forall>c \<in> set query. white_space env c) \<longrightarrow> retrieveContext env query s = (Inr [], s))
   \<and> (trim env query \<noteq> [] \<and> embedText env (rewrite_query query) s = (Inl e, s1)
      \<longrightarrow> retrieveContext env query s =
            (Inr [], s1\<lparr>trace := trace s1 @ [Console ContextRetrievalFailed [e]]\<rparr>))
   \<and> (trim env query \<noteq> [] \<and> embedText env (rewrite_query query) s = (Inr v, s1)
        \<and> queryEmbeddings env v 10 s1 = (Inr [], s2)
      \<longrightarrow> retrieveContext env query s = (Inr [], s2))
   \<and> (trim env query \<noteq> [] \<and> embedText env (rewrite_query query) s = (Inr v, s1)
        \<and> queryEmbeddings env v 10 s1 = (Inr ms, s2) \<and> sort_matches env query ms = Inl e'
      \<longrightarrow> retrieveContext env query s =
            (Inr [], s2\<lparr>trace := trace s2 @ [Console ContextRetrievalFailed [e']]\<rparr>))"
  using retrieve_total [of env query s] retrieve_blank [of env query s]
    retrieve_embed_fails [of env query s e s1] retrieve_no_match [of env query s v s1 s2]
    retrieve_sort_fails [of env query s v s1 ms s2 e'] trim_blank_iff [of env query]
  by blast

lemma trim_sky_blue: "white_space env = sample_space \<Longrightarrow> trim env ''sky blue'' = ''sky blue''"
  by (simp add: trim_def sample_space_def)

lemma embed_ok:
  "trim env text \<noteq> [] \<Longrightarrow> env_set (OPENROUTER_API_KEY env) \<Longrightarrow>
   fetch_embeddings env (trace s) (trim env (collapse_ws env (take 8000 text))) = Inr r \<Longrightarrow>
   emb_ok r \<Longrightarrow> emb_json r = Inr (Some v) \<Longrightarrow> length v = 1536 \<Longrightarrow>
   embedText env text s =
     (Inr v, s\<lparr>trace := trace s @ [FetchEmbeddings (trim env (collapse_ws env (take 8000 text)))]\<rparr>)"
  by (auto simp add: embedText_def io_defs Let_def trim_Nil)

lemma clean_sky_query:
  "white_space env = sample_space \<Longrightarrow>
   trim env (collapse_ws env (take 8000 (rewrite_query ''sky blue''))) = sky_query"
  by (simp add: rewrite_query_def trim_def sample_space_def sky_query_def)

lemma trim_rewrite: "white_space env = sample_space \<Longrightarrow> trim env (rewrite_query q) \<noteq> []"
  by (simp add: rewrite_query_def trim_def sample_space_def)

lemma sample_embed:
  "OPENROUTER_API_KEY env = OPENROUTER_API_KEY sample_env \<Longrightarrow>
   fetch_embeddings env = fetch_embeddings sample_env \<Longrightarrow>
   white_space env = sample_space \<Longrightarrow>
   embedText env (rewrite_query ''sky blue'') fresh_state =
     (Inr sample_vector, \<lparr>trace = [FetchEmbeddings sky_query], pineconeClient = False\<rparr>)"
  using embed_ok [of env "rewrite_query ''sky blue''" fresh_state
      "\<lparr>emb_ok = True, emb_status = 200, emb_text = Inr [], emb_json = Inr (Some sample_vector)\<rparr>"
      sample_vector]
  by (simp add: trim_rewrite clean_sky_query sample_env_def fresh_state_def length_sample_vector)

lemma no_key_embed:
  "embedText no_key_env (rewrite_query ''sky blue'') fresh_state =
     (Inl OpenrouterKeyNotSet,
      \<lparr>trace = [Console EmbeddingFailed [OpenrouterKeyNotSet]], pineconeClient = False\<rparr>)"
  using trim_rewrite [of no_key_env "''sky blue''"]
  by (simp add: embedText_def io_defs sample_host no_key_env_def sample_env_def fresh_state_def
        rewrite_query_def)

lemma no_index_query:
  "queryEmbeddings no_index_env sample_vector 10
     \<lparr>trace = [FetchEmbeddings sky_query], pineconeClient = False\<rparr> =
   (Inr [], \<lparr>trace = [FetchEmbeddings sky_query, Sql (SearchEmbeddings sample_vector 10)],
             pineconeClient = False\<rparr>)"
  by (simp add: queryEmbeddings_def db_embeddings_search_def getDb_def io_defs
        no_index_env_def sample_env_def length_sample_vector)

lemma two_matches_query:
  "queryEmbeddings two_matches_env sample_vector 10
     \<lparr>trace = [FetchEmbeddings sky_query], pineconeClient = False\<rparr> =
   (Inr [PineconeMatch sample_match, PineconeMatch other_match],
    \<lparr>trace = [FetchEmbeddings sky_query, Sql (SearchEmbeddings sample_vector 10),
              PineconeNew ''pc-key'', PineconeQuery ''rag-index'' sample_vector 10],
     pineconeClient = True\<rparr>)"
  by (simp add: queryEmbeddings_def db_embeddings_search_def initPinecone_def getDb_def io_defs
        two_matches_env_def sample_env_def length_sample_vector)

lemma two_matches_sort:
  "sort_matches env ''sky blue'' [PineconeMatch sample_match, PineconeMatch other_match]
     = Inl TypeError"
  by (simp add: sort_matches_def)

text \<open>
  The theorem at a query of three spaces and at one of a tab and a no-break space, at an
  environment without the service's key, at one with an empty primary store and no
  secondary index, and at one whose secondary index answers with two matches (they have no
  field \<open>content\<close>, so the comparator raises).
\<close>

theorem retrieveContext_is_best_effort_witness:
  "white_space sample_env CHR '' ''
   \<and> retrieveContext sample_env ''   '' fresh_state = (Inr [], fresh_state)
   \<and> white_space sample_env CHR 0x09 \<and> white_space sample_env CHR 0xA0
   \<and> retrieveContext sample_env [CHR 0x09, CHR 0xA0] fresh_state = (Inr [], fresh_state)
   \<and> trim no_key_env ''sky blue'' \<noteq> []
   \<and> fst (embedText no_key_env (rewrite_query ''sky blue'') fresh_state) = Inl OpenrouterKeyNotSet
   \<and> fst (retrieveContext no_key_env ''sky blue'' fresh_state) = Inr []
   \<and> fst (retrieveContext no_index_env ''sky blue'' fresh_state) = Inr []
   \<and> sort_matches two_matches_env ''sky blue''
        [PineconeMatch sample_match, PineconeMatch other_match] = Inl TypeError
   \<and> fst (retrieveContext two_matches_env ''sky blue'' fresh_state) = Inr []"
  using retrieveContext_is_best_effort [of sample_env "''   ''" fresh_state]
    retrieveContext_is_best_effort [of sample_env "[CHR 0x09, CHR 0xA0]" fresh_state]
    retrieveContext_is_best_effort [of no_key_env "''sky blue''" fresh_state OpenrouterKeyNotSet
      "\<lparr>trace = [Console EmbeddingFailed [OpenrouterKeyNotSet]], pineconeClient = False\<rparr>"]
    retrieveContext_is_best_effort [of no_index_env "''sky blue''" fresh_state _
      "\<lparr>trace = [FetchEmbeddings sky_query], pineconeClient = False\<rparr>" sample_vector
      "\<lparr>trace = [FetchEmbeddings sky_query, Sql (SearchEmbeddings sample_vector 10)],
             pineconeClient = False\<rparr>"]
    retrieveContext_is_best_effort [of two_matches_env "''sky blue''" fresh_state _
      "\<lparr>trace = [FetchEmbeddings sky_query], pineconeClient = False\<rparr>" sample_vector
      "\<lparr>trace = [FetchEmbeddings sky_query, Sql (SearchEmbeddings sample_vector 10),
              PineconeNew ''pc-key'', PineconeQuery ''rag-index'' sample_vector 10],
        pineconeClient = True\<rparr>"
      "[PineconeMatch sample_match, PineconeMatch other_match]" TypeError]
    no_key_embed sample_embed [of no_index_env] sample_embed [of two_matches_env]
    no_index_query two_matches_query two_matches_sort [of two_matches_env]
    trim_sky_blue [of no_key_env] trim_sky_blue [of no_index_env]
    trim_sky_blue [of two_matches_env]
  by (simp add: sample_host sample_space_def no_index_env_def two_matches_env_def)

section \<open>The re-ranking\<close>

lemma js_includes_sublist: "js_includes b a \<longleftrightarrow> sublist a b"
  by (induction b) (simp_all add: sublist_Cons_right)

lemma foldl_score:
  "foldl (\<lambda>score w. if P w then score + 1 / 10 else score) z ws
     = z + real (length (filter P ws)) / 10"
  by (induction ws arbitrary: z) (simp_all add: field_simps)

text \<open>
  The score of a content \<open>b\<close> for a query \<open>a\<close>: 1 if the lower-cased query occurs in the
  lower-cased content as a contiguous piece, plus one tenth for every piece of the
  lower-cased query between single spaces that occurs in it.
\<close>

lemma textSimilarity_formula:
  "textSimilarity env a b =
     (if sublist (toLowerCase env a) (toLowerCase env b) then 1 else 0)
     + real (length (filter (\<lambda>w. sublist w (toLowerCase env b))
                       (split CHR '' '' (toLowerCase env a)))) / 10"
  by (simp add: textSimilarity_def Let_def foldl_score js_includes_sublist)

text \<open>The score does not see the case of a letter: it reads the lower-cased forms only.\<close>

lemma textSimilarity_ignores_case:
  "toLowerCase env a = toLowerCase env a' \<Longrightarrow> toLowerCase env b = toLowerCase env b' \<Longrightarrow>
   textSimilarity env a b = textSimilarity env a' b'"
  by (simp add: textSimilarity_def)

lemma sort_rows:
  "\<forall>m \<in> set ms. is_str (match_content m) \<Longrightarrow>
   sort_matches env query ms =
     Inr (sort_key (\<lambda>m. - textSimilarity env query (str_of (match_content m))) ms)"
  by (auto simp: sort_matches_def)

lemma sort_rows_sorted:
  "sorted_wrt (\<lambda>x y. textSimilarity env query (str_of (match_content y))
                     \<le> textSimilarity env query (str_of (match_content x)))
     (sort_key (\<lambda>m. - textSimilarity env query (str_of (match_content m))) ms)"
  using sorted_sort_key [of "\<lambda>m. - textSimilarity env query (str_of (match_content m))" ms]
  by (simp add: sorted_map)

text \<open>
  On matches whose content is a string (the rows of the primary store), the re-ranking
  returns a permutation of the matches in the order of falling score, matches of equal
  score in the order they came in; \<open>retrieveContext\<close> embeds the rewritten query, ranks
  with the original one, and joins the texts in the ranked order.
\<close>

lemma rerank_rows:
  assumes "\<forall>m \<in> set ms. is_str (match_content m)"
  shows "\<exists>ranked. sort_matches env query ms = Inr ranked
           \<and> mset ranked = mset ms
           \<and> sorted_wrt (\<lambda>x y. textSimilarity env query (str_of (match_content y))
                              \<le> textSimilarity env query (str_of (match_content x))) ranked
           \<and> (\<forall>k. filter (\<lambda>m. textSimilarity env query (str_of (match_content m)) = k) ranked
                  = filter (\<lambda>m. textSimilarity env query (str_of (match_content m)) = k) ms)
           \<and> (trim env query \<noteq> [] \<and> embedText env (rewrite_query query) s = (Inr v, s1)
                \<and> queryEmbeddings env v 10 s1 = (Inr ms, s2) \<and> ms \<noteq> []
              \<longrightarrow> retrieveContext env query s =
                    (Inr (join blank_line (filter (\<lambda>c. c \<noteq> []) (map extract_content ranked))),
                     s2))"
proof -
  let ?key = "\<lambda>m. - textSimilarity env query (str_of (match_content m))"
  have stable: "filter (\<lambda>m. textSimilarity env query (str_of (match_content m)) = k)
                  (sort_key ?key ms)
      = filter (\<lambda>m. textSimilarity env query (str_of (match_content m)) = k) ms" for k
    using sort_key_stable [of ?key "- k" ms] by simp
  have ranked: "trim env query \<noteq> [] \<Longrightarrow> embedText env (rewrite_query query) s = (Inr v, s1) \<Longrightarrow>
      queryEmbeddings env v 10 s1 = (Inr ms, s2) \<Longrightarrow> ms \<noteq> [] \<Longrightarrow>
      retrieveContext env query s =
        (Inr (join blank_line (filter (\<lambda>c. c \<noteq> []) (map extract_content (sort_key ?key ms)))),
         s2)"
    using retrieve_ranked [of env query s v s1 ms s2] assms by simp
  show ?thesis
    using sort_rows [OF assms, of env query] sort_rows_sorted [of env query ms] stable ranked
    by (simp add: mset_sort)
qed

lemma score_sky:
  "toLowerCase env = sample_lower \<Longrightarrow> textSimilarity env ''sky blue'' ''the sky is blue'' = 1 / 5"
  by (simp add: textSimilarity_def sample_lower_def lower_char_def Let_def)

lemma score_cats:
  "toLowerCase env = sample_lower \<Longrightarrow> textSimilarity env ''sky blue'' ''cats are mammals'' = 0"
  by (simp add: textSimilarity_def sample_lower_def lower_char_def Let_def)

lemma score_mixed_case:
  "toLowerCase env = sample_lower \<Longrightarrow> textSimilarity env ''Sky BLUE'' ''The SKY is Blue'' = 1 / 5"
  by (simp add: textSimilarity_def sample_lower_def lower_char_def Let_def)

lemma score_whole_query:
  "toLowerCase env = sample_lower \<Longrightarrow> textSimilarity env ''Sky Is'' ''the sky is blue'' = 6 / 5"
  by (simp add: textSimilarity_def sample_lower_def lower_char_def Let_def)

lemma sky_first:
  "toLowerCase env = sample_lower \<Longrightarrow>
   row_content r1 = ''the sky is blue'' \<Longrightarrow> row_content r2 = ''cats are mammals'' \<Longrightarrow>
   sort_matches env ''sky blue'' [PgRow r1, PgRow r2] = Inr [PgRow r1, PgRow r2]
   \<and> sort_matches env ''sky blue'' [PgRow r2, PgRow r1] = Inr [PgRow r1, PgRow r2]"
  by (simp add: sort_matches_def score_sky score_cats)

lemma two_rows_query:
  "queryEmbeddings two_rows_env sample_vector 10
     \<lparr>trace = [FetchEmbeddings sky_query], pineconeClient = False\<rparr> =
   (Inr [PgRow cats_row, PgRow sky_row],
    \<lparr>trace = [FetchEmbeddings sky_query, Sql (SearchEmbeddings sample_vector 10)],
     pineconeClient = False\<rparr>)"
  by (simp add: queryEmbeddings_def db_embeddings_search_def getDb_def io_defs
        two_rows_env_def sample_env_def length_sample_vector)

lemma two_rows_sort:
  "sort_matches two_rows_env ''sky blue'' [PgRow cats_row, PgRow sky_row]
     = Inr [PgRow sky_row, PgRow cats_row]"
  using sky_first [of two_rows_env sky_row cats_row]
  by (simp add: sample_host sky_row_def cats_row_def)

lemma two_rows_sort_mixed_case:
  "sort_matches two_rows_env ''SKY Blue'' [PgRow cats_row, PgRow sky_row]
     = Inr [PgRow sky_row, PgRow cats_row]"
proof -
  have "textSimilarity two_rows_env ''SKY Blue'' ''the sky is blue'' = 1 / 5"
    "textSimilarity two_rows_env ''SKY Blue'' ''cats are mammals'' = 0"
    by (simp_all add: textSimilarity_def sample_host sample_lower_def lower_char_def Let_def)
  then show ?thesis
    by (simp add: sort_matches_def sky_row_def cats_row_def)
qed

lemma sample_contents:
  "extract_content (PgRow sky_row) = ''the sky is blue''"
  "extract_content (PgRow cats_row) = ''cats are mammals''"
  "extract_content (PineconeMatch sample_match) = ''the sky is blue''"
  "extract_content (PineconeMatch other_match) = ''cats are mammals''"
  by (simp_all add: extract_content_def js_or_def opt_get_def md_get_def sky_row_def
        cats_row_def sample_match_def other_match_def)

lemma two_rows_context:
  "retrieveContext two_rows_env ''sky blue'' fresh_state =
     (Inr (''the sky is blue'' @ blank_line @ ''cats are mammals''),
      \<lparr>trace = [FetchEmbeddings sky_query, Sql (SearchEmbeddings sample_vector 10)],
       pineconeClient = False\<rparr>)"
proof -
  have embed: "embedText two_rows_env (rewrite_query ''sky blue'') fresh_state
                 = (Inr sample_vector, \<lparr>trace = [FetchEmbeddings sky_query], pineconeClient = False\<rparr>)"
    using sample_embed [of two_rows_env] by (simp add: sample_host two_rows_env_def)
  have nonblank: "\<not> (''sky blue'' = [] \<or> trim two_rows_env ''sky blue'' = [])"
    by (simp add: trim_sky_blue sample_host)
  show ?thesis
    unfolding retrieveContext_def
    by (simp only: nonblank if_False)
       (simp add: io_defs embed two_rows_query two_rows_sort sample_contents)
qed

lemma two_matches_context:
  "retrieveContext two_matches_env ''sky blue'' fresh_state =
     (Inr [],
      \<lparr>trace = [FetchEmbeddings sky_query, Sql (SearchEmbeddings sample_vector 10),
                PineconeNew ''pc-key'', PineconeQuery ''rag-index'' sample_vector 10,
                Console ContextRetrievalFailed [TypeError]],
       pineconeClient = True\<rparr>)"
proof -
  have embed: "embedText two_matches_env (rewrite_query ''sky blue'') fresh_state
                 = (Inr sample_vector, \<lparr>trace = [FetchEmbeddings sky_query], pineconeClient = False\<rparr>)"
    using sample_embed [of two_matches_env] by (simp add: sample_host two_matches_env_def)
  have nonblank: "trim two_matches_env ''sky blue'' \<noteq> []"
    by (simp add: trim_sky_blue sample_host)
  show ?thesis
    using retrieve_sort_fails [OF nonblank embed two_matches_query two_matches_sort]
    by simp
qed

lemma one_match_context:
  "fst (retrieveContext sample_env ''sky blue'' fresh_state) = Inr ''the sky is blue''"
proof -
  have embed: "embedText sample_env (rewrite_query ''sky blue'') fresh_state
                 = (Inr sample_vector, \<lparr>trace = [FetchEmbeddings sky_query], pineconeClient = False\<rparr>)"
    using sample_embed [of sample_env] by (simp add: sample_host)
  have nonblank: "\<not> (''sky blue'' = [] \<or> trim sample_env ''sky blue'' = [])"
    by (simp add: trim_sky_blue sample_host)
  have query: "queryEmbeddings sample_env sample_vector 10
       \<lparr>trace = [FetchEmbeddings sky_query], pineconeClient = False\<rparr> =
     (Inr [PineconeMatch sample_match],
      \<lparr>trace = [FetchEmbeddings sky_query, Sql (SearchEmbeddings sample_vector 10),
                PineconeNew ''pc-key'', PineconeQuery ''rag-index'' sample_vector 10],
       pineconeClient = True\<rparr>)"
    by (simp add: queryEmbeddings_def db_embeddings_search_def initPinecone_def getDb_def io_defs
          sample_env_def length_sample_vector)
  show ?thesis
    unfolding retrieveContext_def
    by (simp only: nonblank if_False)
       (simp add: io_defs embed query sort_matches_def sample_contents)
qed

text \<open>
  Claim C7, at the matches of the claim's example when they come from the secondary index
  (the primary store is empty): two matches, their texts \<open>the sky is blue\<close> and
  \<open>cats are mammals\<close> under \<^verbatim>\<open>metadata.content\<close>, and the query \<open>sky blue\<close>. The comparator
  reads \<^verbatim>\<open>match.content\<close>, which such a match does not have, so the first comparison raises
  a type error, nothing is ranked, and \<open>retrieveContext\<close> ends in its handler with the empty
  string. The extraction a few lines below the sort reads \<^verbatim>\<open>match.metadata.content\<close> as
  well: it finds both texts, and a single match of the index, which is never compared, is
  returned with its text. The same two texts as rows of the primary store are ranked as the
  claim says, the sky before the cats, whatever the case of the query's letters.
\<close>

theorem secondary_matches_are_not_ranked:
  "fst (queryEmbeddings two_matches_env sample_vector 10
          \<lparr>trace = [FetchEmbeddings sky_query], pineconeClient = False\<rparr>)
     = Inr [PineconeMatch sample_match, PineconeMatch other_match]
   \<and> map extract_content [PineconeMatch sample_match, PineconeMatch other_match]
       = [''the sky is blue'', ''cats are mammals'']
   \<and> map match_content [PineconeMatch sample_match, PineconeMatch other_match]
       = [Undefined, Undefined]
   \<and> sort_matches two_matches_env ''sky blue''
        [PineconeMatch sample_match, PineconeMatch other_match] = Inl TypeError
   \<and> retrieveContext two_matches_env ''sky blue'' fresh_state =
       (Inr [],
        \<lparr>trace = [FetchEmbeddings sky_query, Sql (SearchEmbeddings sample_vector 10),
                  PineconeNew ''pc-key'', PineconeQuery ''rag-index'' sample_vector 10,
                  Console ContextRetrievalFailed [TypeError]],
         pineconeClient = True\<rparr>)
   \<and> fst (retrieveContext sample_env ''sky blue'' fresh_state) = Inr ''the sky is blue''
   \<and> sort_matches two_rows_env ''sky blue'' [PgRow cats_row, PgRow sky_row]
       = Inr [PgRow sky_row, PgRow cats_row]
   \<and> sort_matches two_rows_env ''SKY Blue'' [PgRow cats_row, PgRow sky_row]
       = Inr [PgRow sky_row, PgRow cats_row]
   \<and> fst (retrieveContext two_rows_env ''sky blue'' fresh_state)
       = Inr (''the sky is blue'' @ blank_line @ ''cats are mammals'')"
  by (simp add: two_matches_query two_matches_sort two_matches_context one_match_context
        two_rows_sort two_rows_sort_mixed_case two_rows_context sample_contents)

section \<open>The stream\<close>

lemma split_no_sep: "sep \<notin> set w \<Longrightarrow> split sep w = [w]"
  by (induction w) auto

lemma split_at_sep: "sep \<notin> set w \<Longrightarrow> split sep (w @ sep # rest) = w # split sep rest"
  by (induction w) auto

lemma emit_chunk_Nil: "emit_chunk env [] = []"
  by (simp add: emit_chunk_def trim_Nil)

text \<open>A read that begins with a whole event: its line is handled, the rest of the read after it.\<close>

lemma emit_chunk_frame:
  assumes "CHR 0x0A \<notin> set p" and "\<not> white_space env CHR ''d''"
  shows "emit_chunk env (frame p @ rest) = emit_line env (''data: '' @ p) @ emit_chunk env rest"
proof -
  have nl: "CHR 0x0A \<notin> set (''data: '' @ p)"
    using assms(1) by simp
  have "frame p @ rest = (''data: '' @ p) @ CHR 0x0A # ([] @ CHR 0x0A # rest)"
    by (simp add: frame_def blank_line_def)
  then have "split (CHR 0x0A) (frame p @ rest) = (''data: '' @ p) # [] # split (CHR 0x0A) rest"
    using split_at_sep [OF nl, of "[] @ CHR 0x0A # rest"]
      split_at_sep [of "CHR 0x0A" "[]" rest]
    by simp
  moreover have "trim env (''data: '' @ p) \<noteq> []"
    using trim_nonspace [OF assms(2), of "''ata: '' @ p"] by simp
  ultimately show ?thesis
    by (simp add: emit_chunk_def trim_Nil)
qed

text \<open>A read of whole events: every event is handled, in order.\<close>

lemma emit_chunk_frames:
  assumes "\<forall>p \<in> set g. CHR 0x0A \<notin> set p" and "\<not> white_space env CHR ''d''"
  shows "emit_chunk env (concat (map frame g)) = concat (map (\<lambda>p. emit_line env (''data: '' @ p)) g)"
  using assms(1)
proof (induction g)
  case Nil
  show ?case by (simp add: emit_chunk_Nil)
next
  case (Cons p g)
  then show ?case
    by (simp add: emit_chunk_frame [OF _ assms(2)])
qed

lemma emit_reads:
  assumes "\<forall>p \<in> set (concat groups). CHR 0x0A \<notin> set p" and "\<not> white_space env CHR ''d''"
  shows "concat (map (emit_chunk env) (map (\<lambda>g. concat (map frame g)) groups))
           = concat (map (\<lambda>p. emit_line env (''data: '' @ p)) (concat groups))"
  using assms(1)
proof (induction groups)
  case Nil
  show ?case by simp
next
  case (Cons g groups)
  then show ?case
    by (simp add: emit_chunk_frames [OF _ assms(2)])
qed

lemma emit_data_line:
  "emit_line env (CHR ''d'' # CHR ''a'' # CHR ''t'' # CHR ''a'' # CHR '':'' # CHR '' '' # p) =
     (if p = ''[DONE]'' then [Done]
      else case json_delta env p of
             Inl e \<Rightarrow> []
           | Inr d \<Rightarrow> if truthy d then [TextDelta d] else [])"
  by (simp add: emit_line_def Let_def)

lemma emit_deltas:
  assumes "\<forall>p \<in> set ps. p \<noteq> ''[DONE]''" and "map (json_delta env) ps = map Inr ds"
  shows "concat (map (\<lambda>p. emit_line env (''data: '' @ p)) ps) = map TextDelta (filter truthy ds)"
  using assms
proof (induction ps arbitrary: ds)
  case Nil
  then show ?case by simp
next
  case (Cons p ps)
  then obtain d ds' where ds:
    "ds = d # ds'" "json_delta env p = Inr d" "map (json_delta env) ps = map Inr ds'"
    by (cases ds) auto
  with Cons show ?case
    by (simp add: emit_data_line)
qed

lemma emit_frame:
  assumes "CHR 0x0A \<notin> set p" and "\<not> white_space env CHR ''d''"
  shows "emit_chunk env (frame p) = emit_line env (''data: '' @ p)"
  using emit_chunk_frame [OF assms, of "[]"] by (simp add: emit_chunk_Nil)

text \<open>
  Claim C4, as the code has it. The upstream body delivers the events \<open>frame p\<close> for the
  payloads \<open>ps\<close> and then the end marker, in any number of reads, each read made of whole
  events (\<open>groups\<close> are the payloads read by read: one event in a read, several, or none);
  no payload holds a line feed or is the marker itself, and the payloads parse to the delta
  contents \<open>ds\<close>. The route emits one normalised event for every content that is truthy
  (a text that is not empty), in the order of arrival, and then the end marker once. A
  delta whose content is the empty text emits nothing. When every content is truthy, the
  events are exactly \<open>ds\<close> in order, as many as there are payloads, followed by the one
  marker. The letter \<open>d\<close> is not white space for the host.
\<close>

theorem stream_forwards_deltas_with_text:
  "\<not> white_space env CHR ''d'' \<Longrightarrow>
   concat groups = ps @ [''[DONE]''] \<Longrightarrow>
   (\<forall>p \<in> set ps. CHR 0x0A \<notin> set p \<and> p \<noteq> ''[DONE]'') \<Longrightarrow>
   map (json_delta env) ps = map Inr ds \<Longrightarrow>
   stream_start env
     (Some \<lparr>reads = map (\<lambda>g. concat (map frame g)) groups, read_error = None\<rparr>) s =
     (Inr (map TextDelta (filter truthy ds) @ [Done]), s)
   \<and> ((\<forall>d \<in> set ds. truthy d) \<longrightarrow>
        stream_start env
          (Some \<lparr>reads = map (\<lambda>g. concat (map frame g)) groups, read_error = None\<rparr>) s =
          (Inr (map TextDelta ds @ [Done]), s)
        \<and> length (map TextDelta ds) = length ps)"
proof -
  assume host: "\<not> white_space env CHR ''d''"
    and groups: "concat groups = ps @ [''[DONE]'']"
    and ps: "\<forall>p \<in> set ps. CHR 0x0A \<notin> set p \<and> p \<noteq> ''[DONE]''"
    and ds: "map (json_delta env) ps = map Inr ds"
  have whole: "\<forall>p \<in> set (concat groups). CHR 0x0A \<notin> set p"
    unfolding groups using ps by simp
  have "concat (map (emit_chunk env) (map (\<lambda>g. concat (map frame g)) groups))
          = concat (map (\<lambda>p. emit_line env (''data: '' @ p)) (ps @ [''[DONE]'']))"
    using emit_reads [OF whole host] by (simp only: groups)
  also have "\<dots> = map TextDelta (filter truthy ds) @ [Done]"
    using emit_deltas [of ps env ds] ps ds by (simp add: emit_data_line)
  finally have "stream_start env
      (Some \<lparr>reads = map (\<lambda>g. concat (map frame g)) groups, read_error = None\<rparr>) s =
     (Inr (map TextDelta (filter truthy ds) @ [Done]), s)"
    by (simp add: stream_start_def io_defs Let_def)
  moreover have "(\<forall>d \<in> set ds. truthy d) \<longrightarrow> filter truthy ds = ds"
    by (simp add: filter_id_conv)
  moreover have "length ds = length ps"
    using ds by (metis length_map)
  ultimately show ?thesis by simp
qed

lemma sample_payloads:
  "CHR 0x0A \<notin> set hello_payload" "hello_payload \<noteq> ''[DONE]''"
  "CHR 0x0A \<notin> set world_payload" "world_payload \<noteq> ''[DONE]''"
  "CHR 0x0A \<notin> set empty_payload" "empty_payload \<noteq> ''[DONE]''"
  "hello_payload \<noteq> world_payload" "hello_payload \<noteq> empty_payload"
  "world_payload \<noteq> empty_payload"
  by (simp_all add: hello_payload_def world_payload_def empty_payload_def)

lemma sample_deltas:
  "sample_delta hello_payload = Inr (Str ''Hello'')"
  "sample_delta world_payload = Inr (Str '' world'')"
  "sample_delta empty_payload = Inr (Str [])"
  using sample_payloads by (simp_all add: sample_delta_def)

lemma sample_letter: "\<not> sample_space CHR ''d''"
  by (simp add: sample_space_def)

text \<open>
  The theorem at the sample stream, two deltas with text and the end marker: one event in
  each of three reads, and both deltas in one read with the marker in a second.
\<close>

theorem stream_forwards_deltas_with_text_witness:
  "\<not> white_space sample_env CHR ''d''
   \<and> CHR 0x0A \<notin> set hello_payload \<and> hello_payload \<noteq> ''[DONE]''
   \<and> CHR 0x0A \<notin> set world_payload \<and> world_payload \<noteq> ''[DONE]''
   \<and> map (json_delta sample_env) [hello_payload, world_payload]
       = map Inr [Str ''Hello'', Str '' world'']
   \<and> truthy (Str ''Hello'') \<and> truthy (Str '' world'')
   \<and> reads sample_upstream = [frame hello_payload, frame world_payload, frame ''[DONE]'']
   \<and> stream_start sample_env (Some sample_upstream) fresh_state =
       (Inr [TextDelta (Str ''Hello''), TextDelta (Str '' world''), Done], fresh_state)
   \<and> reads batched_upstream = [frame hello_payload @ frame world_payload, frame ''[DONE]'']
   \<and> stream_start sample_env (Some batched_upstream) fresh_state =
       (Inr [TextDelta (Str ''Hello''), TextDelta (Str '' world''), Done], fresh_state)"
  using stream_forwards_deltas_with_text [of sample_env
      "[[hello_payload], [world_payload], [''[DONE]'']]" "[hello_payload, world_payload]"
      "[Str ''Hello'', Str '' world'']" fresh_state]
    stream_forwards_deltas_with_text [of sample_env
      "[[hello_payload, world_payload], [''[DONE]'']]" "[hello_payload, world_payload]"
      "[Str ''Hello'', Str '' world'']" fresh_state]
    sample_payloads sample_deltas sample_letter
  by (simp add: sample_upstream_def batched_upstream_def sample_env_def)

text \<open>
  Claim C4 as stated fails on a delta without text: of three delta chunks, the first with
  the role and the empty content, two events are emitted before the end marker.
\<close>

theorem delta_without_text_is_dropped:
  "json_delta sample_env empty_payload = Inr (Str [])
   \<and> stream_start sample_env
       (Some \<lparr>reads = [frame empty_payload, frame hello_payload, frame world_payload,
                       frame ''[DONE]''],
              read_error = None\<rparr>) fresh_state =
       (Inr [TextDelta (Str ''Hello''), TextDelta (Str '' world''), Done], fresh_state)"
proof -
  have host: "\<not> white_space sample_env CHR ''d''"
    by (simp add: sample_host sample_letter)
  have delta: "json_delta sample_env = sample_delta"
    by (simp add: sample_env_def)
  show ?thesis
    using sample_payloads sample_deltas
    by (simp add: stream_start_def io_defs emit_frame [OF _ host] emit_data_line delta)
qed

section \<open>The context message\<close>

lemma init_sample:
  "sql_exec env = sql_exec sample_env \<Longrightarrow> DATABASE_URL env = DATABASE_URL sample_env \<Longrightarrow>
   initializeDatabase env s = (Inr (), s\<lparr>trace := trace s @ map (\<lambda>d. Sql (Ddl d)) ddl_statements\<rparr>)"
  by (simp add: initializeDatabase_def getDb_def io_defs ddl_statements_def sample_env_def)

lemma hello_body:
  "toLowerCase env = sample_lower \<Longrightarrow>
   completion_body env (in_messages hello_chat) (in_images hello_chat) [] = hello_request"
  by (simp add: completion_body_def hello_chat_def hello_request_def context_message_def
       userMessages_def hasImages_def out_role_def blank_line_def sample_lower_def lower_char_def)

lemma hello_last: "last_content (in_messages hello_chat) = Inr ''hello''"
  by (simp add: last_content_def hello_chat_def)

lemma hello_context_at:
  assumes "OPENROUTER_API_KEY env = Some ''sk-or-key''"
    and "fetch_embeddings env = fetch_embeddings sample_env"
    and "DATABASE_URL env = Some ''postgres://db''"
    and "sql_search env = (\<lambda>h v k. Inr [])"
    and "PINECONE_INDEX env = None"
    and "white_space env = sample_space"
  shows "retrieveContext env ''hello'' s =
     (Inr [], s\<lparr>trace := trace s @ [hello_embedding, Sql (SearchEmbeddings sample_vector 10)]\<rparr>)"
  using assms
  by (simp add: retrieveContext_def embedText_def queryEmbeddings_def db_embeddings_search_def
        getDb_def io_defs sample_env_def length_sample_vector rewrite_query_def
        trim_def sample_space_def Let_def sort_matches_def hello_embedding_def)

text \<open>
  A chat turn with the one message \<open>hello\<close>, when nothing is retrieved and every call
  succeeds: the embedding of the question, the search, the completion request, the insert of
  the message, and the stream.
\<close>

lemma hello_turn_at:
  assumes "OPENROUTER_API_KEY env = Some ''sk-or-key''"
    and "fetch_embeddings env = fetch_embeddings sample_env"
    and "DATABASE_URL env = Some ''postgres://db''"
    and "sql_search env = (\<lambda>h v k. Inr [])"
    and "PINECONE_INDEX env = None"
    and "white_space env = sample_space"
    and "toLowerCase env = sample_lower"
    and "fetch_chat env = fetch_chat sample_env"
    and "sql_exec env = (\<lambda>h q. Inr ())"
    and "new_message_id env = (\<lambda>h. ''msg-1'')"
  shows "chat_turn env ''user-1'' (in_messages hello_chat) (in_images hello_chat) s =
     (Inr (EventStream (concat (map (emit_chunk env) (reads sample_upstream)))),
      s\<lparr>trace := trace s @ [hello_embedding, Sql (SearchEmbeddings sample_vector 10),
                 FetchChatCompletions hello_request, hello_insert]\<rparr>)"
proof -
  have images: "in_images hello_chat = None"
    by (simp add: hello_chat_def)
  show ?thesis
    using hello_body [OF assms(7)] assms(3,8,9,10)
    by (simp add: chat_turn_def rag_context_def hello_last images
        hello_context_at [OF assms(1-6)] io_defs Let_def
        store_user_message_def db_chatMessages_create_def getDb_def stream_start_def
        sample_upstream_def sample_env_def hello_insert_def)
qed

lemma no_index_fields:
  "OPENROUTER_API_KEY no_index_env = Some ''sk-or-key''"
  "fetch_embeddings no_index_env = fetch_embeddings sample_env"
  "DATABASE_URL no_index_env = Some ''postgres://db''"
  "sql_search no_index_env = (\<lambda>h v k. Inr [])"
  "PINECONE_INDEX no_index_env = None"
  "white_space no_index_env = sample_space"
  "toLowerCase no_index_env = sample_lower"
  "fetch_chat no_index_env = fetch_chat sample_env"
  "sql_exec no_index_env = (\<lambda>h q. Inr ())"
  "new_message_id no_index_env = (\<lambda>h. ''msg-1'')"
  "sql_select_user no_index_env = (\<lambda>h u. Inr None)"
  "sql_upsert_user no_index_env = (\<lambda>h u e n r.
     Inr (Some \<lparr>user_id = u, user_email = e, user_name = n, user_role = r\<rparr>))"
  by (simp_all add: no_index_env_def sample_env_def)

lemma init_no_index:
  "initializeDatabase no_index_env s = (Inr (), s\<lparr>trace := trace s @ schema_trace\<rparr>)"
  unfolding schema_trace_def
  by (rule init_sample) (simp_all add: no_index_env_def)

lemma hello_user:
  "ensure_user_chat no_index_env ''user-1'' s =
     (Inr (), s\<lparr>trace := trace s @
        [Sql (SelectUser ''user-1''),
         Sql (UpsertUser ''user-1'' ''user-1@temp.local'' (Some ''Chat User'') ''user'')]\<rparr>)"
  by (simp add: ensure_user_chat_def db_users_getById_def db_users_upsert_def getDb_def io_defs
        or_null_def no_index_fields)

lemma no_index_chat:
  "trace (snd (chat_POST no_index_env (Inr hello_chat) fresh_state)) =
     schema_trace @
       [Sql (SelectUser ''user-1''),
        Sql (UpsertUser ''user-1'' ''user-1@temp.local'' (Some ''Chat User'') ''user''),
        hello_embedding, Sql (SearchEmbeddings sample_vector 10),
        FetchChatCompletions hello_request, hello_insert]"
proof -
  have user: "in_userId hello_chat = Some ''user-1''"
    by (simp add: hello_chat_def)
  show ?thesis
    by (simp add: chat_POST_def io_defs Let_def user init_no_index hello_user
          hello_turn_at [OF no_index_fields(1-10)] fresh_state_def)
qed

text \<open>
  A message list without a message: reading the content of the last message raises a type
  error in both \<^verbatim>\<open>try\<close> blocks, each handler prints it, and the turn goes on. The request
  carries the context message alone, nothing is written to the chat log, and the stream is
  returned.
\<close>

lemma empty_turn:
  assumes "fetch_chat env = fetch_chat sample_env"
  shows "chat_turn env uid [] None s =
     (Inr (EventStream (concat (map (emit_chunk env) (reads sample_upstream)))),
      s\<lparr>trace := trace s @
        [Console RagContextFailed [TypeError],
         FetchChatCompletions
           \<lparr>req_model = ''microsoft/phi-3-medium-128k-instruct'',
            req_messages = [context_message []], req_stream = True\<rparr>,
         Console StoreMessageFailed [TypeError]]\<rparr>)"
  using assms
  by (simp add: chat_turn_def rag_context_def last_content_def io_defs Let_def
        completion_body_def userMessages_def hasImages_def store_user_message_def
        stream_start_def sample_upstream_def sample_env_def)

text \<open>
  Claim C3, at a chat turn for which nothing is retrieved (an empty primary store, no
  secondary index, the question \<open>hello\<close>). The request sent to the completion service
  begins with the message of the role \<open>assistant\<close> whose content is the heading
  \<open>Here is relevant document context:\<close> and two line feeds, with nothing after them. The
  neutral instruction is the value of \<open>systemMessage\<close> for the empty context; the route
  computes it and never puts it in the request.
\<close>

theorem empty_context_message_is_not_neutral:
  "fst (retrieveContext no_index_env ''hello'' fresh_state) = Inr []
   \<and> FetchChatCompletions hello_request
       \<in> set (trace (snd (chat_POST no_index_env (Inr hello_chat) fresh_state)))
   \<and> req_messages hello_request =
       [\<lparr>msg_role = ''assistant'',
         msg_content = Text (''Here is relevant document context:'' @ [CHR 0x0A, CHR 0x0A])\<rparr>,
        \<lparr>msg_role = ''user'', msg_content = Text ''hello''\<rparr>]
   \<and> systemMessage [] = ''You are a helpful AI assistant.''"
  by (simp add: no_index_chat hello_context_at [OF no_index_fields(1-6)] hello_request_def
        systemMessage_def)

section \<open>The upload of a document\<close>















text \<open>The steps of the sample upload, in every environment with the sample's primary store.\<close>

lemma init_step_at:
  assumes "sql_exec env = (\<lambda>h q. Inr ())" and "DATABASE_URL env = Some ''postgres://db''"
  shows "init_step env fresh_state = (Inr True, \<lparr>trace = schema_trace, pineconeClient = False\<rparr>)"
  using init_sample [of env fresh_state] assms
  by (simp add: init_step_def io_defs sample_env_def fresh_state_def schema_trace_def)










lemma sample_vector_nonempty: "sample_vector \<noteq> []"
  by (simp add: sample_vector_def)

lemma fresh_trace: "trace fresh_state = []"
  by (simp add: fresh_state_def)





section \<open>The user before the child rows\<close>

lemma emits_return: "emits P (io_return x)"
  by (simp add: emits_def io_return_def)

lemma emits_throw: "emits P (io_throw e)"
  by (simp add: emits_def io_throw_def)

lemma emits_lift: "emits P (io_lift r)"
  by (simp add: emits_def io_lift_def)

lemma emits_read: "emits P (io_read f)"
  by (simp add: emits_def io_read_def)

lemma emits_console: "P ev \<Longrightarrow> emits P (console ev)"
  by (simp add: emits_def console_def)

lemma emits_call: "P ev \<Longrightarrow> emits P (io_call ev f)"
  by (simp add: emits_def io_call_def)

lemma emits_bind:
  assumes "emits P m" and "\<And>x. emits P (f x)"
  shows "emits P (io_bind m f)"
  unfolding emits_def
proof
  fix s
  obtain r s1 where m: "m s = (r, s1)" by (cases "m s")
  from assms(1) obtain n1 where n1: "trace s1 = trace s @ n1" "list_all P n1"
    using m unfolding emits_def by (metis snd_conv)
  show "\<exists>new. trace (snd (io_bind m f s)) = trace s @ new \<and> list_all P new"
  proof (cases r)
    case (Inl e)
    with m n1 show ?thesis by (auto simp: io_bind_def)
  next
    case (Inr x)
    from assms(2) [of x] obtain n2 where "trace (snd (f x s1)) = trace s1 @ n2" "list_all P n2"
      unfolding emits_def by blast
    with m n1 Inr show ?thesis
      by (auto simp: io_bind_def intro!: exI [of _ "n1 @ n2"])
  qed
qed

lemma emits_then: "emits P m \<Longrightarrow> emits P k \<Longrightarrow> emits P (io_then m k)"
  by (simp add: io_then_def emits_bind)

lemma emits_catch:
  assumes "emits P m" and "\<And>e. emits P (h e)"
  shows "emits P (io_catch m h)"
  unfolding emits_def
proof
  fix s
  obtain r s1 where m: "m s = (r, s1)" by (cases "m s")
  from assms(1) obtain n1 where n1: "trace s1 = trace s @ n1" "list_all P n1"
    using m unfolding emits_def by (metis snd_conv)
  show "\<exists>new. trace (snd (io_catch m h s)) = trace s @ new \<and> list_all P new"
  proof (cases r)
    case (Inr x)
    with m n1 show ?thesis by (auto simp: io_catch_def)
  next
    case (Inl e)
    from assms(2) [of e] obtain n2 where "trace (snd (h e s1)) = trace s1 @ n2" "list_all P n2"
      unfolding emits_def by blast
    with m n1 Inl show ?thesis
      by (auto simp: io_catch_def intro!: exI [of _ "n1 @ n2"])
  qed
qed

lemma emits_each: "(\<And>x. emits P (f x)) \<Longrightarrow> emits P (io_each f xs)"
  by (induction xs) (simp_all add: emits_return emits_then)

lemma emits_weaken: "emits P m \<Longrightarrow> (\<And>ev. P ev \<Longrightarrow> Q ev) \<Longrightarrow> emits Q m"
  unfolding emits_def by (metis (mono_tags, lifting) list.pred_mono_strong)

lemmas emits_intros = emits_return emits_throw emits_lift emits_read emits_console emits_call
  emits_bind emits_then emits_catch emits_each

lemma emits_getDb: "emits P (getDb env)"
  by (simp add: getDb_def emits_return emits_throw)

lemma emits_initializeDatabase: "emits (\<lambda>ev. \<not> child_write ev) (initializeDatabase env)"
  by (auto simp: initializeDatabase_def intro!: emits_intros emits_getDb)

lemma emits_getById: "emits (\<lambda>ev. \<not> child_write ev) (db_users_getById env uid)"
  by (auto simp: db_users_getById_def intro!: emits_intros emits_getDb)

lemma emits_upsert: "emits (\<lambda>ev. \<not> child_write ev) (db_users_upsert env uid e n r)"
  by (auto simp: db_users_upsert_def intro!: emits_intros emits_getDb)

lemma emits_ensureUserExists: "emits (\<lambda>ev. \<not> child_write ev) (ensureUserExists env uid)"
  by (auto simp: ensureUserExists_def intro!: emits_intros emits_getById emits_upsert
      split: option.split)

lemma emits_ensure_user_chat: "emits (\<lambda>ev. \<not> child_write ev) (ensure_user_chat env uid)"
  by (auto simp: ensure_user_chat_def intro!: emits_intros emits_getById emits_upsert
      split: option.split)

lemma emits_init_step: "emits (\<lambda>ev. \<not> child_write ev) (init_step env)"
  by (auto simp: init_step_def intro!: emits_intros emits_initializeDatabase)

lemma emits_user_step: "emits (\<lambda>ev. \<not> child_write ev) (user_step env uid)"
  by (auto simp: user_step_def intro!: emits_intros emits_ensureUserExists)

lemma emits_embedText: "emits (\<lambda>ev. \<not> child_write ev) (embedText env t)"
  by (auto simp: embedText_def Let_def intro!: emits_intros split: option.split)

lemma emits_initPinecone: "emits (\<lambda>ev. \<not> child_write ev) (initPinecone env)"
  by (auto simp: emits_def initPinecone_def io_defs split: option.split sum.split)

lemma emits_search: "emits (\<lambda>ev. \<not> child_write ev) (db_embeddings_search env q k)"
  by (auto simp: db_embeddings_search_def intro!: emits_intros emits_getDb)

lemma emits_queryEmbeddings: "emits (\<lambda>ev. \<not> child_write ev) (queryEmbeddings env q k)"
  by (auto simp: queryEmbeddings_def intro!: emits_intros emits_search emits_initPinecone
      split: option.split)

lemma emits_retrieveContext: "emits (\<lambda>ev. \<not> child_write ev) (retrieveContext env q)"
  by (auto simp: retrieveContext_def intro!: emits_intros emits_embedText emits_queryEmbeddings)

lemma emits_stream_start: "emits (\<lambda>ev. \<not> child_write ev) (stream_start env body)"
  by (auto simp: stream_start_def Let_def intro!: emits_intros split: option.split)

lemma emits_chatMessages_create:
  "emits (\<lambda>ev. child_write ev \<longrightarrow> env_set (DATABASE_URL env))
     (db_chatMessages_create env i u r c is)"
proof (cases "env_set (DATABASE_URL env)")
  case True
  then show ?thesis
    by (auto simp: db_chatMessages_create_def getDb_def intro!: emits_intros)
next
  case False
  then show ?thesis
    by (simp add: db_chatMessages_create_def getDb_def emits_def io_defs)
qed

lemma emits_store_user_message:
  "emits (\<lambda>ev. child_write ev \<longrightarrow> env_set (DATABASE_URL env)) (store_user_message env uid ms is)"
  by (auto simp: store_user_message_def intro!: emits_intros emits_chatMessages_create)

lemma emits_rag_context: "emits (\<lambda>ev. \<not> child_write ev) (rag_context env ms)"
  by (auto simp: rag_context_def intro!: emits_intros emits_retrieveContext)

lemma emits_chat_turn:
  "emits (\<lambda>ev. child_write ev \<longrightarrow> env_set (DATABASE_URL env)) (chat_turn env uid ms is)"
  by (auto simp: chat_turn_def Let_def
      intro!: emits_intros emits_store_user_message
        emits_weaken [OF emits_rag_context] emits_weaken [OF emits_stream_start])

lemma emits_create: "emits (\<lambda>ev. True) (db_embeddings_create env i d k c v m)"
  by (auto simp: db_embeddings_create_def intro!: emits_intros emits_getDb)

lemma emits_storeEmbedding: "emits (\<lambda>ev. True) (storeEmbedding env i v md)"
  by (auto simp: storeEmbedding_def intro!: emits_intros emits_create
      emits_weaken [OF emits_initPinecone] split: option.split)

lemma emits_process_chunk: "emits (\<lambda>ev. True) (process_chunk env d f u i c counts)"
  by (auto simp: process_chunk_def store_in_both_def store_in_primary_def Let_def
      intro!: emits_intros emits_create emits_storeEmbedding emits_weaken [OF emits_embedText])

lemma emits_chunk_loop: "emits (\<lambda>ev. True) (chunk_loop env d f u i cs counts)"
  by (induction cs arbitrary: i counts) (auto intro!: emits_intros emits_process_chunk)

lemma emits_documents_create: "emits (\<lambda>ev. True) (db_documents_create env i u n t z x)"
  by (auto simp: db_documents_create_def intro!: emits_intros emits_getDb)

lemma emits_store_document: "emits (\<lambda>ev. True) (store_document env f u t)"
  by (auto simp: store_document_def intro!: emits_intros emits_documents_create emits_chunk_loop
      split: option.split)

lemma emits_read_file: "emits (\<lambda>ev. True) (read_file env f u)"
  by (auto simp: read_file_def Let_def intro!: emits_intros emits_store_document
      split: option.split sum.split)

lemma ensured_append:
  "ensured env uid h (xs @ ys) = (ensured env uid h xs \<or> ensured env uid (h @ xs) ys)"
  by (induction xs arbitrary: h) auto

lemma user_first_append:
  "user_first env uid b seen (xs @ ys) =
     (user_first env uid b seen xs \<and> user_first env uid b (seen @ xs) ys)"
  by (induction xs arbitrary: seen) auto

lemma user_first_no_write:
  "list_all (\<lambda>ev. \<not> child_write ev) xs \<Longrightarrow> user_first env uid b seen xs"
  by (induction xs arbitrary: seen) auto

lemma user_first_ensured:
  "ensured env uid b seen \<Longrightarrow> user_first env uid b seen xs"
  by (induction xs arbitrary: seen) (auto simp: ensured_append)

lemma lookup_first_append:
  "lookup_first uid seen (xs @ ys) =
     (lookup_first uid seen xs \<and> lookup_first uid (seen @ xs) ys)"
  by (induction xs arbitrary: seen) auto

lemma lookup_first_no_write:
  "list_all (\<lambda>ev. \<not> child_write ev) xs \<Longrightarrow> lookup_first uid seen xs"
  by (induction xs arbitrary: seen) auto

lemma lookup_first_seen:
  "Sql (SelectUser uid) \<in> set seen \<Longrightarrow> lookup_first uid seen xs"
  by (induction xs arbitrary: seen) auto

lemma hoare_bind:
  assumes "hoare A m B" and "\<And>x. hoare (B (Inr x)) (f x) C"
    and "\<And>e t. B (Inl e) t \<Longrightarrow> C (Inl e) t"
  shows "hoare A (io_bind m f) C"
  unfolding hoare_def
proof (intro allI impI)
  fix s :: state assume "A (trace s)"
  with assms(1) have b: "B (fst (m s)) (trace (snd (m s)))"
    by (simp add: hoare_def)
  show "C (fst (io_bind m f s)) (trace (snd (io_bind m f s)))"
  proof (cases "m s")
    case (Pair r s1)
    with b assms(2,3) show ?thesis
      by (cases r) (auto simp: io_bind_def hoare_def)
  qed
qed

lemma hoare_catch:
  assumes "hoare A m B" and "\<And>e. hoare (B (Inl e)) (h e) C"
    and "\<And>x t. B (Inr x) t \<Longrightarrow> C (Inr x) t"
  shows "hoare A (io_catch m h) C"
  unfolding hoare_def
proof (intro allI impI)
  fix s :: state assume "A (trace s)"
  with assms(1) have b: "B (fst (m s)) (trace (snd (m s)))"
    by (simp add: hoare_def)
  show "C (fst (io_catch m h s)) (trace (snd (io_catch m h s)))"
  proof (cases "m s")
    case (Pair r s1)
    with b assms(2,3) show ?thesis
      by (cases r) (auto simp: io_catch_def hoare_def)
  qed
qed

lemma hoare_return: "(\<And>t. A t \<Longrightarrow> B (Inr x) t) \<Longrightarrow> hoare A (io_return x) B"
  by (simp add: hoare_def io_return_def)

lemma hoare_throw: "(\<And>t. A t \<Longrightarrow> B (Inl e) t) \<Longrightarrow> hoare A (io_throw e) B"
  by (simp add: hoare_def io_throw_def)

lemma hoare_weaken:
  "hoare A m B \<Longrightarrow> (\<And>t. A' t \<Longrightarrow> A t) \<Longrightarrow> (\<And>r t. B r t \<Longrightarrow> B' r t) \<Longrightarrow> hoare A' m B'"
  by (simp add: hoare_def)

text \<open>An invariant of the trace that every event with \<open>P\<close> keeps is kept by a computation that emits such events only.\<close>

lemma hoare_emits:
  assumes "emits P m" and "\<And>t ev. I t \<Longrightarrow> P ev \<Longrightarrow> I (t @ [ev])"
  shows "hoare I m (\<lambda>r. I)"
proof -
  have keep: "I t \<Longrightarrow> list_all P new \<Longrightarrow> I (t @ new)" for t new
  proof (induction new arbitrary: t)
    case Nil
    then show ?case by simp
  next
    case (Cons ev new)
    from Cons.prems assms(2) have "I (t @ [ev])" by simp
    with Cons.IH [of "t @ [ev]"] Cons.prems show ?case by simp
  qed
  show ?thesis
    unfolding hoare_def
  proof (intro allI impI)
    fix s :: state assume "I (trace s)"
    moreover from assms(1) obtain new where "trace (snd (m s)) = trace s @ new" "list_all P new"
      unfolding emits_def by blast
    ultimately show "I (trace (snd (m s)))"
      using keep by simp
  qed
qed

lemma io_bind_lift: "io_bind (io_lift (Inr x)) f = f x"
  by (simp add: io_bind_def io_lift_def)

lemma user_step_run:
  "\<exists>new. trace (snd (user_step env uid s)) = trace s @ new
        \<and> list_all (\<lambda>ev. \<not> child_write ev) new
        \<and> (case fst (user_step env uid s) of
              Inr (Inr u) \<Rightarrow> ensured env uid (trace s) new
            | _ \<Rightarrow> True)"
  by (auto simp: user_step_def ensureUserExists_def db_users_getById_def db_users_upsert_def
        getDb_def io_defs split: sum.split option.split)

lemma ensure_user_chat_run:
  "\<exists>new. trace (snd (ensure_user_chat env uid s)) = trace s @ new
        \<and> list_all (\<lambda>ev. \<not> child_write ev) new
        \<and> (env_set (DATABASE_URL env) \<longrightarrow> Sql (SelectUser uid) \<in> set new)
        \<and> (ensured env uid (trace s) new \<or> list_ex check_failed new)"
  by (auto simp: ensure_user_chat_def db_users_getById_def db_users_upsert_def
        getDb_def io_defs split: sum.split option.split)

lemma ensure_user_chat_total: "fst (ensure_user_chat env uid s) = Inr ()"
  by (auto simp: ensure_user_chat_def io_defs split: sum.split prod.split option.split)

lemma upload_user_first:
  assumes "form_userId form = Some uid"
  shows "user_first env uid (trace s) [] (new_events (upload_POST env (Inr form)) s)"
proof -
  define base where "base = trace s"
  define A1 where "A1 = (\<lambda>t. \<exists>n. t = base @ n \<and> list_all (\<lambda>ev. \<not> child_write ev) n)"
  define A2 where
    "A2 = (\<lambda>t. \<exists>n. t = base @ n \<and> user_first env uid base [] n \<and> ensured env uid base n)"
  define C where "C = (\<lambda>t. \<exists>n. t = base @ n \<and> user_first env uid base [] n)"
  have start: "A1 base"
    by (simp add: A1_def)
  have A1_C: "A1 t \<Longrightarrow> C t" for t
    by (auto simp: A1_def C_def user_first_no_write)
  have A2_C: "A2 t \<Longrightarrow> C t" for t
    by (auto simp: A2_def C_def)
  have A1_keep: "A1 t \<Longrightarrow> \<not> child_write ev \<Longrightarrow> A1 (t @ [ev])" for t ev
    by (auto simp: A1_def)
  have A2_keep: "A2 t \<Longrightarrow> A2 (t @ [ev])" for t ev
    by (auto simp: A2_def user_first_append ensured_append)
  have C_keep: "C t \<Longrightarrow> \<not> child_write ev \<Longrightarrow> C (t @ [ev])" for t ev
    by (auto simp: C_def user_first_append)
  have init: "hoare (\<lambda>t. t = base) (init_step env) (\<lambda>r. A1)"
    by (rule hoare_weaken [OF hoare_emits [OF emits_init_step, of A1]])
       (auto simp: A1_keep start)
  have user: "hoare A1 (user_step env uid)
                (\<lambda>r t. case r of Inr (Inr u) \<Rightarrow> A2 t | _ \<Rightarrow> A1 t)"
    unfolding hoare_def
  proof (intro allI impI)
    fix t :: state assume "A1 (trace t)"
    then obtain n where n: "trace t = base @ n" "list_all (\<lambda>ev. \<not> child_write ev) n"
      by (auto simp: A1_def)
    obtain new where new: "trace (snd (user_step env uid t)) = trace t @ new"
      "list_all (\<lambda>ev. \<not> child_write ev) new"
      "case fst (user_step env uid t) of
         Inr (Inr u) \<Rightarrow> ensured env uid (trace t) new | _ \<Rightarrow> True"
      using user_step_run [of env uid t] by blast
    have a1: "A1 (trace (snd (user_step env uid t)))"
      using n new(1,2) by (auto simp: A1_def)
    have a2: "ensured env uid (trace t) new \<Longrightarrow> A2 (trace (snd (user_step env uid t)))"
      using n new(1,2)
      by (auto simp: A2_def ensured_append user_first_no_write intro!: exI [of _ "n @ new"])
    show "case fst (user_step env uid t) of
            Inr (Inr u) \<Rightarrow> A2 (trace (snd (user_step env uid t)))
          | _ \<Rightarrow> A1 (trace (snd (user_step env uid t)))"
      using a1 a2 new(3) by (auto split: sum.splits)
  qed
  have reading: "hoare A2 (read_file env f u) (\<lambda>r. C)" for f u
    by (rule hoare_weaken [OF hoare_emits [OF emits_read_file, of A2]])
       (auto simp: A2_keep A2_C)
  have handler: "hoare C (io_then (console (Console k es)) (io_return x)) (\<lambda>r. C)" for k es x
    by (rule hoare_emits [of "\<lambda>ev. \<not> child_write ev"])
       (auto intro!: emits_intros simp: C_keep)
  have body: "hoare (\<lambda>t. t = base)
      (case form_file form of
         None \<Rightarrow> io_return (Failure 400 ''No file provided'' None)
       | Some file \<Rightarrow>
           if \<not> env_set (form_userId form) then
             io_return (Failure 401 ''User ID is required'' None)
           else
             let userId = (case form_userId form of Some u \<Rightarrow> u | None \<Rightarrow> []) in
             io_bind (init_step env)
               (\<lambda>initialised.
                  if \<not> initialised then
                    io_return (Failure 500 ''Database initialization failed'' None)
                  else
                    io_bind (user_step env userId)
                      (\<lambda>ensured. case ensured of
                           Inl userError \<Rightarrow>
                             io_return (Failure 500 ''Failed to create user record''
                                          (Some userError))
                         | Inr finalUserId \<Rightarrow> read_file env file finalUserId)))
      (\<lambda>r. C)"
  proof (cases "form_file form")
    case None
    then show ?thesis
      by (auto intro!: hoare_return A1_C start)
  next
    case (Some f)
    show ?thesis
    proof (cases "uid = []")
      case True
      with Some assms show ?thesis
        by (auto intro!: hoare_return A1_C start)
    next
      case False
      have rest: "hoare A1
          (if \<not> initialised then
             io_return (Failure 500 ''Database initialization failed'' None)
           else
             io_bind (user_step env uid)
               (\<lambda>ensured. case ensured of
                    Inl userError \<Rightarrow>
                      io_return (Failure 500 ''Failed to create user record'' (Some userError))
                  | Inr finalUserId \<Rightarrow> read_file env f finalUserId))
          (\<lambda>r. C)" for initialised
      proof (cases initialised)
        case False
        then show ?thesis
          by (auto intro!: hoare_return A1_C)
      next
        case True
        have "hoare A1
          (io_bind (user_step env uid)
               (\<lambda>ensured. case ensured of
                    Inl userError \<Rightarrow>
                      io_return (Failure 500 ''Failed to create user record'' (Some userError))
                  | Inr finalUserId \<Rightarrow> read_file env f finalUserId))
          (\<lambda>r. C)"
        proof (rule hoare_bind [OF user])
          fix x :: "error + string"
          show "hoare (\<lambda>t. case Inr x of Inr (Inr u) \<Rightarrow> A2 t | _ \<Rightarrow> A1 t)
                  (case x of
                     Inl userError \<Rightarrow>
                       io_return (Failure 500 ''Failed to create user record'' (Some userError))
                   | Inr finalUserId \<Rightarrow> read_file env f finalUserId)
                  (\<lambda>r. C)"
            by (cases x) (auto intro!: hoare_return A1_C reading)
        next
          fix e t
          assume "case Inl e of Inr (Inr u) \<Rightarrow> A2 t | _ \<Rightarrow> A1 t"
          then show "C t" by (simp add: A1_C)
        qed
        with True show ?thesis by simp
      qed
      have "hoare (\<lambda>t. t = base)
          (io_bind (init_step env)
             (\<lambda>initialised.
                if \<not> initialised then
                  io_return (Failure 500 ''Database initialization failed'' None)
                else
                  io_bind (user_step env uid)
                    (\<lambda>ensured. case ensured of
                         Inl userError \<Rightarrow>
                           io_return (Failure 500 ''Failed to create user record''
                                        (Some userError))
                       | Inr finalUserId \<Rightarrow> read_file env f finalUserId)))
          (\<lambda>r. C)"
        by (rule hoare_bind [OF init]) (rule rest, erule A1_C)
      with Some False assms show ?thesis
        by (simp add: Let_def)
    qed
  qed
  have "hoare (\<lambda>t. t = base) (upload_POST env (Inr form)) (\<lambda>r. C)"
    unfolding upload_POST_def io_bind_lift
    by (rule hoare_catch [OF body]) (auto intro: handler)
  then have "C (trace (snd (upload_POST env (Inr form) s)))"
    by (simp add: hoare_def base_def)
  then show ?thesis
    by (auto simp: C_def new_events_def base_def)
qed

lemma chat_lookup_first:
  assumes "in_userId inp = Some uid"
  shows "lookup_first uid [] (new_events (chat_POST env (Inr inp)) s)
       \<and> (user_first env uid (trace s) [] (new_events (chat_POST env (Inr inp)) s)
          \<or> list_ex check_failed (new_events (chat_POST env (Inr inp)) s))"
proof -
  define base where "base = trace s"
  define A1 where "A1 = (\<lambda>t. \<exists>n. t = base @ n \<and> list_all (\<lambda>ev. \<not> child_write ev) n)"
  define A3 where
    "A3 = (\<lambda>t. \<exists>n. t = base @ n \<and> lookup_first uid [] n
             \<and> (env_set (DATABASE_URL env) \<longrightarrow> Sql (SelectUser uid) \<in> set n)
             \<and> ((user_first env uid base [] n \<and> ensured env uid base n)
                 \<or> list_ex check_failed n))"
  define C where
    "C = (\<lambda>t. \<exists>n. t = base @ n \<and> lookup_first uid [] n
            \<and> (user_first env uid base [] n \<or> list_ex check_failed n))"
  have start: "A1 base"
    by (simp add: A1_def)
  have A1_C: "A1 t \<Longrightarrow> C t" for t
    by (auto simp: A1_def C_def user_first_no_write lookup_first_no_write)
  have A3_C: "A3 t \<Longrightarrow> C t" for t
    by (auto simp: A3_def C_def)
  have A1_keep: "A1 t \<Longrightarrow> \<not> child_write ev \<Longrightarrow> A1 (t @ [ev])" for t ev
    by (auto simp: A1_def)
  have A3_keep: "A3 t \<Longrightarrow> (child_write ev \<longrightarrow> env_set (DATABASE_URL env)) \<Longrightarrow> A3 (t @ [ev])"
    for t ev
    by (auto simp: A3_def user_first_append ensured_append lookup_first_append)
  have C_keep: "C t \<Longrightarrow> \<not> child_write ev \<Longrightarrow> C (t @ [ev])" for t ev
    by (auto simp: C_def user_first_append lookup_first_append)
  have init: "hoare (\<lambda>t. t = base)
      (io_catch (initializeDatabase env)
         (\<lambda>initError. console (Console DatabaseInitFailed [initError]))) (\<lambda>r. A1)"
    by (rule hoare_weaken [OF hoare_emits [of "\<lambda>ev. \<not> child_write ev" _ A1]])
       (auto simp: A1_keep start intro!: emits_intros emits_initializeDatabase)
  have user: "hoare A1 (ensure_user_chat env uid) (\<lambda>r. A3)"
    unfolding hoare_def
  proof (intro allI impI)
    fix t :: state assume "A1 (trace t)"
    then obtain n where n: "trace t = base @ n" "list_all (\<lambda>ev. \<not> child_write ev) n"
      by (auto simp: A1_def)
    obtain new where new: "trace (snd (ensure_user_chat env uid t)) = trace t @ new"
      "list_all (\<lambda>ev. \<not> child_write ev) new"
      "env_set (DATABASE_URL env) \<longrightarrow> Sql (SelectUser uid) \<in> set new"
      "ensured env uid (trace t) new \<or> list_ex check_failed new"
      using ensure_user_chat_run [of env uid t] by blast
    have "list_all (\<lambda>ev. \<not> child_write ev) (n @ new)"
      using n(2) new(2) by simp
    then have "lookup_first uid [] (n @ new)" "user_first env uid base [] (n @ new)"
      by (simp_all only: lookup_first_no_write user_first_no_write)
    moreover have "ensured env uid base (n @ new) \<or> list_ex check_failed (n @ new)"
      using new(4) n(1) by (auto simp: ensured_append)
    ultimately show "A3 (trace (snd (ensure_user_chat env uid t)))"
      using n(1) new(1,3) unfolding A3_def
      by (intro exI [of _ "n @ new"]) auto
  qed
  have turn: "hoare A3 (chat_turn env uid ms is) (\<lambda>r. C)" for ms "is"
    by (rule hoare_weaken [OF hoare_emits [OF emits_chat_turn, of A3]])
       (auto simp: A3_keep A3_C)
  have handler: "hoare C (io_then (console (Console k es)) (io_return x)) (\<lambda>r. C)" for k es x
    by (rule hoare_emits [of "\<lambda>ev. \<not> child_write ev"])
       (auto intro!: emits_intros simp: C_keep)
  have body: "hoare (\<lambda>t. t = base)
      (if \<not> env_set (in_userId inp) then io_return (JsonResponse 401 ''Unauthorized'')
       else
         let userId = (case in_userId inp of Some u \<Rightarrow> u | None \<Rightarrow> []) in
         io_then
           (io_catch (initializeDatabase env)
              (\<lambda>initError. console (Console DatabaseInitFailed [initError])))
           (io_then (ensure_user_chat env userId)
              (chat_turn env userId (in_messages inp) (in_images inp))))
      (\<lambda>r. C)"
  proof (cases "uid = []")
    case True
    with assms show ?thesis
      by (auto intro!: hoare_return A1_C start)
  next
    case False
    have "hoare A1
        (io_then (ensure_user_chat env uid) (chat_turn env uid (in_messages inp) (in_images inp)))
        (\<lambda>r. C)"
      unfolding io_then_def
      by (rule hoare_bind [OF user]) (rule turn, erule A3_C)
    then have "hoare (\<lambda>t. t = base)
        (io_then
           (io_catch (initializeDatabase env)
              (\<lambda>initError. console (Console DatabaseInitFailed [initError])))
           (io_then (ensure_user_chat env uid)
              (chat_turn env uid (in_messages inp) (in_images inp))))
        (\<lambda>r. C)"
      unfolding io_then_def [of "io_catch (initializeDatabase env) _"]
      by (intro hoare_bind [OF init]) (auto intro: A1_C)
    with False assms show ?thesis
      by (simp add: Let_def)
  qed
  have "hoare (\<lambda>t. t = base) (chat_POST env (Inr inp)) (\<lambda>r. C)"
    unfolding chat_POST_def io_bind_lift
    by (rule hoare_catch [OF body]) (auto intro: handler)
  then have "C (trace (snd (chat_POST env (Inr inp) s)))"
    by (simp add: hoare_def base_def)
  then show ?thesis
    by (auto simp: C_def new_events_def base_def)
qed

text \<open>
  For every upload and every behaviour of the collaborators, the route writes a child row
  only after an event that shows the user's row to be there (\<open>upload_user_first\<close>). For
  every chat turn, the write of the chat message comes after the lookup of the user, and
  after an event that shows the user's row to be there unless the user check raised
  (\<open>chat_lookup_first\<close>); the check of the chat route never fails the turn
  (\<open>ensure_user_chat_total\<close>).
\<close>

lemma lookup_down_fields:
  "OPENROUTER_API_KEY lookup_down_env = Some ''sk-or-key''"
  "fetch_embeddings lookup_down_env = fetch_embeddings sample_env"
  "DATABASE_URL lookup_down_env = Some ''postgres://db''"
  "sql_search lookup_down_env = (\<lambda>h v k. Inr [])"
  "PINECONE_INDEX lookup_down_env = None"
  "white_space lookup_down_env = sample_space"
  "toLowerCase lookup_down_env = sample_lower"
  "fetch_chat lookup_down_env = fetch_chat sample_env"
  "sql_exec lookup_down_env = (\<lambda>h q. Inr ())"
  "new_message_id lookup_down_env = (\<lambda>h. ''msg-1'')"
  "sql_select_user lookup_down_env = (\<lambda>h u. Inl (External ''connection reset''))"
  by (simp_all add: lookup_down_env_def no_index_env_def sample_env_def)

lemma lookup_down_user:
  "ensure_user_chat lookup_down_env ''user-1'' s =
     (Inr (), s\<lparr>trace := trace s @
        [Sql (SelectUser ''user-1''), Console GetUserFailed [External ''connection reset''],
         Console UserCheckFailed [External ''connection reset'']]\<rparr>)"
  by (simp add: ensure_user_chat_def db_users_getById_def getDb_def io_defs lookup_down_fields)

lemma lookup_down_init:
  "initializeDatabase lookup_down_env s = (Inr (), s\<lparr>trace := trace s @ schema_trace\<rparr>)"
  unfolding schema_trace_def
  by (rule init_sample) (simp_all add: lookup_down_fields sample_env_def)

lemma lookup_down_chat:
  "trace (snd (chat_POST lookup_down_env (Inr hello_chat) fresh_state)) =
     schema_trace @
       [Sql (SelectUser ''user-1''), Console GetUserFailed [External ''connection reset''],
        Console UserCheckFailed [External ''connection reset''],
        hello_embedding, Sql (SearchEmbeddings sample_vector 10),
        FetchChatCompletions hello_request, hello_insert]"
proof -
  have user: "in_userId hello_chat = Some ''user-1''"
    by (simp add: hello_chat_def)
  show ?thesis
    by (simp add: chat_POST_def io_defs Let_def user lookup_down_init lookup_down_user
          hello_turn_at [OF lookup_down_fields(1-10)] fresh_state_def)
qed

lemma lookup_down_upload:
  "upload_POST lookup_down_env (Inr notes_form) fresh_state =
     (Inr (Failure 500 ''Failed to create user record''
             (Some (UserCreationFailed (External ''connection reset'')))),
      \<lparr>trace = schema_trace @
         [Sql (SelectUser ''user-1''), Console GetUserFailed [External ''connection reset''],
          Console EnsureUserFailed [External ''connection reset''],
          Console EnsureUserFailed [UserCreationFailed (External ''connection reset'')]],
       pineconeClient = False\<rparr>)"
proof -
  have form: "form_file notes_form = Some notes_file" "form_userId notes_form = Some ''user-1''"
    by (simp_all add: notes_form_def)
  have user: "user_step lookup_down_env ''user-1'' \<lparr>trace = schema_trace, pineconeClient = False\<rparr> =
      (Inr (Inl (UserCreationFailed (External ''connection reset''))),
       \<lparr>trace = schema_trace @
         [Sql (SelectUser ''user-1''), Console GetUserFailed [External ''connection reset''],
          Console EnsureUserFailed [External ''connection reset''],
          Console EnsureUserFailed [UserCreationFailed (External ''connection reset'')]],
       pineconeClient = False\<rparr>)"
    by (simp add: user_step_def ensureUserExists_def db_users_getById_def getDb_def io_defs
          lookup_down_fields)
  show ?thesis
    by (simp add: upload_POST_def io_defs Let_def form user
          init_step_at [OF lookup_down_fields(9) lookup_down_fields(3)])
qed

text \<open>
  Claim C8, at a chat turn during which the lookup of the user raises (the connection to
  the store is reset for this one statement). The chat route prints the error and goes on:
  the turn ends with the insert of the chat message, a child row, and no event of the turn
  shows the user's row to be there, neither a lookup that found it nor an upsert. The
  upload route, at the same environment, answers 500 after the failed check and writes no
  child row.
\<close>

theorem chat_writes_after_failed_user_check:
  "trace (snd (chat_POST lookup_down_env (Inr hello_chat) fresh_state)) =
     schema_trace @
       [Sql (SelectUser ''user-1''), Console GetUserFailed [External ''connection reset''],
        Console UserCheckFailed [External ''connection reset''],
        hello_embedding, Sql (SearchEmbeddings sample_vector 10),
        FetchChatCompletions hello_request, hello_insert]
   \<and> child_write hello_insert
   \<and> \<not> ensured lookup_down_env ''user-1'' []
         (trace (snd (chat_POST lookup_down_env (Inr hello_chat) fresh_state)))
   \<and> \<not> user_first lookup_down_env ''user-1'' [] []
         (trace (snd (chat_POST lookup_down_env (Inr hello_chat) fresh_state)))
   \<and> fst (upload_POST lookup_down_env (Inr notes_form) fresh_state) =
       Inr (Failure 500 ''Failed to create user record''
              (Some (UserCreationFailed (External ''connection reset''))))
   \<and> \<not> list_ex child_write
         (trace (snd (upload_POST lookup_down_env (Inr notes_form) fresh_state)))"
  by (simp add: lookup_down_chat lookup_down_upload schema_trace_def ddl_statements_def
        hello_insert_def hello_embedding_def lookup_down_fields)


end
